theory Spec2Isabelle
  imports Main
begin

section \<open>Python values, exceptions and dictionaries\<close>

text \<open>
  The activator handles dynamically typed data: the value that the browser channel
  returns for a script, the object that \<^verbatim>\<open>json.loads\<close> builds from it, the merchant
  entries of the configuration and the per-merchant outcome dictionaries. They are all
  values of one type. A dictionary is an association list with string keys, looked up
  with \<open>map_of\<close>. Numbers are integers: a JSON number with a fraction has no
  counterpart here.
\<close>

datatype pyval =
    PNone
  | PBool bool
  | PInt int
  | PStr string
  | PList "pyval list"
  | PDict "(string \<times> pyval) list"

type_synonym pydict = "(string \<times> pyval) list"

text \<open>Every exception of the model is caught by \<^verbatim>\<open>except Exception\<close>; the string is
  what \<^verbatim>\<open>str(e)\<close> gives.\<close>

datatype exn =
    AttributeError string
  | TypeError string
  | JSONDecodeError string
  | ChannelError string

fun str_exn :: "exn \<Rightarrow> string" where
  "str_exn (AttributeError m) = m"
| "str_exn (TypeError m) = m"
| "str_exn (JSONDecodeError m) = m"
| "str_exn (ChannelError m) = m"

text \<open>Truth value testing, as \<^verbatim>\<open>if x:\<close> and \<^verbatim>\<open>not x\<close> do it.\<close>

fun truthy :: "pyval \<Rightarrow> bool" where
  "truthy PNone = False"
| "truthy (PBool b) = b"
| "truthy (PInt i) = (i \<noteq> 0)"
| "truthy (PStr s) = (s \<noteq> [])"
| "truthy (PList xs) = (xs \<noteq> [])"
| "truthy (PDict kvs) = (kvs \<noteq> [])"

fun type_name :: "pyval \<Rightarrow> string" where
  "type_name PNone = ''NoneType''"
| "type_name (PBool b) = ''bool''"
| "type_name (PInt i) = ''int''"
| "type_name (PStr s) = ''str''"
| "type_name (PList xs) = ''list''"
| "type_name (PDict kvs) = ''dict''"

text \<open>A name between apostrophes, as exception messages show it.\<close>

definition quoted :: "string \<Rightarrow> string" where
  "quoted s = CHR 0x27 # s @ [CHR 0x27]"

text \<open>\<^verbatim>\<open>d.get(key, default)\<close> on a dictionary.\<close>

definition dict_get :: "pydict \<Rightarrow> string \<Rightarrow> pyval \<Rightarrow> pyval" where
  "dict_get d k dflt = (case map_of d k of None \<Rightarrow> dflt | Some v \<Rightarrow> v)"

text \<open>\<^verbatim>\<open>x.get(key, default)\<close> on any value: only a dictionary has the method.\<close>

definition py_get :: "pyval \<Rightarrow> string \<Rightarrow> pyval \<Rightarrow> exn + pyval" where
  "py_get x k dflt =
     (case x of
        PDict d \<Rightarrow> Inr (dict_get d k dflt)
      | _ \<Rightarrow> Inl (AttributeError
                 (quoted (type_name x) @ '' object has no attribute '' @ quoted ''get'')))"

definition ebind :: "exn + 'a \<Rightarrow> ('a \<Rightarrow> exn + 'b) \<Rightarrow> exn + 'b" where
  "ebind r f = (case r of Inl e \<Rightarrow> Inl e | Inr x \<Rightarrow> f x)"

text \<open>
  \<^verbatim>\<open>json.loads\<close> belongs to the standard library. Its action on a string is the
  parameter \<open>jl\<close>: the parsed value, or the text of the \<^verbatim>\<open>JSONDecodeError\<close>. An
  argument that is no string is a \<^verbatim>\<open>TypeError\<close>.
\<close>

type_synonym json_parser = "string \<Rightarrow> string + pyval"

definition json_loads :: "json_parser \<Rightarrow> pyval \<Rightarrow> exn + pyval" where
  "json_loads jl x =
     (case x of
        PStr s \<Rightarrow> (case jl s of Inl m \<Rightarrow> Inl (JSONDecodeError m) | Inr v \<Rightarrow> Inr v)
      | _ \<Rightarrow> Inl (TypeError
                 (''the JSON object must be str, bytes or bytearray, not '' @ type_name x)))"

text \<open>\<^verbatim>\<open>total += x\<close> with an integer total: a bool counts as 0 or 1, anything else
  that is no number raises.\<close>

definition py_add :: "int \<Rightarrow> pyval \<Rightarrow> exn + int" where
  "py_add n x =
     (case x of
        PInt i \<Rightarrow> Inr (n + i)
      | PBool b \<Rightarrow> Inr (n + (if b then 1 else 0))
      | _ \<Rightarrow> Inl (TypeError
                 (''unsupported operand type(s) for +=: '' @ quoted ''int''
                  @ '' and '' @ quoted (type_name x))))"

text \<open>The integer that \<open>py_add\<close> adds for a numeric value.\<close>

fun int_of :: "pyval \<Rightarrow> int" where
  "int_of (PInt i) = i"
| "int_of (PBool b) = (if b then 1 else 0)"
| "int_of _ = 0"


section \<open>The world outside: page calls, the log, the trace\<close>

text \<open>
  The scripts sent to the page are long constant texts; each is named by a tag. The two
  credential scripts embed the credential in their text.
\<close>

datatype script =
    UserAgentScript
  | UsernameScript string
  | ContinueScript
  | PasswordScript string
  | LoginScript
  | VerifyScript
  | ActivationScript
  | StoreResultsScript
  | ReadResultsScript

text \<open>\<open>CouponsUrl p\<close> is \<^verbatim>\<open>f"https://www.payback.de/coupons?partnerId={p}"\<close>.\<close>

datatype url = LoginUrl | CouponsUrl pyval

datatype call =
    BrowserOpen
  | BrowserStart
  | GetPage
  | GoTo url
  | ExecuteScript script
  | FindCookieButton
  | ClickCookieButton
  | DebugScreenshot pyval
  | GetScreenshot string
  | PageSource
  | WriteFile string
  | SaveResults

datatype level = WARNING | ERROR

text \<open>
  The trace lists, in order, every call made on the browser, the page and the file
  system, and every log record of level WARNING or ERROR. Records of level INFO and the
  settle delays (\<^verbatim>\<open>asyncio.sleep\<close>) change no value and are left out. A log record
  carries the constant part of its message, followed by \<^verbatim>\<open>str(e)\<close> where the message
  formats an exception.
\<close>

datatype event = Call call | Log level string | BrowserClose

text \<open>
  The world answers a call with a value or raises; its answer may depend on everything
  that happened before.
\<close>

type_synonym world = "event list \<Rightarrow> call \<Rightarrow> exn + pyval"

type_synonym 'a action = "event list \<Rightarrow> (exn + 'a) \<times> event list"

definition do_call :: "world \<Rightarrow> call \<Rightarrow> pyval action" where
  "do_call w c tr = (w tr c, tr @ [Call c])"

definition log :: "level \<Rightarrow> string \<Rightarrow> unit action" where
  "log l m tr = (Inr (), tr @ [Log l m])"

definition ret :: "'a \<Rightarrow> 'a action" where
  "ret x tr = (Inr x, tr)"

definition seq :: "'a action \<Rightarrow> ('a \<Rightarrow> 'b action) \<Rightarrow> 'b action" where
  "seq m f tr = (case m tr of (Inl e, tr') \<Rightarrow> (Inl e, tr') | (Inr x, tr') \<Rightarrow> f x tr')"

text \<open>\<^verbatim>\<open>try: m except Exception as e: h(e)\<close>\<close>

definition try_except :: "'a action \<Rightarrow> (exn \<Rightarrow> 'a action) \<Rightarrow> 'a action" where
  "try_except m h tr = (case m tr of (Inl e, tr') \<Rightarrow> h e tr' | (Inr x, tr') \<Rightarrow> (Inr x, tr'))"

text \<open>\<^verbatim>\<open>async with Chrome(options=...) as browser:\<close> the browser is closed on every
  way out of the body.\<close>

definition with_browser :: "world \<Rightarrow> 'a action \<Rightarrow> 'a action" where
  "with_browser w body tr =
     (case do_call w BrowserOpen tr of
        (Inl e, tr') \<Rightarrow> (Inl e, tr')
      | (Inr _, tr') \<Rightarrow> (case body tr' of (r, tr'') \<Rightarrow> (r, tr'' @ [BrowserClose])))"


section \<open>Activating the coupons of one partner\<close>

record activator =
  username :: string
  password :: string
  headless :: bool
  is_github_actions :: bool
  debug_mode :: bool
  merchants :: "pydict list"

text \<open>The two outcome dictionaries that \<^verbatim>\<open>activate_coupons_for_partner\<close> returns.\<close>

definition success_outcome ::
  "pyval \<Rightarrow> pyval \<Rightarrow> pyval \<Rightarrow> pyval \<Rightarrow> pyval \<Rightarrow> pydict" where
  "success_outcome partner_name partner_id activated coupons_total already =
     [(''partner_name'', partner_name),
      (''partner_id'', partner_id),
      (''activated'', activated),
      (''total'', coupons_total),
      (''success'', PBool True),
      (''alreadyActivated'', already)]"

definition failure_outcome :: "pyval \<Rightarrow> pyval \<Rightarrow> pyval \<Rightarrow> pydict" where
  "failure_outcome partner_name partner_id err =
     [(''partner_name'', partner_name),
      (''partner_id'', partner_id),
      (''error'', err),
      (''success'', PBool False)]"

text \<open>
  The body of the \<^verbatim>\<open>try\<close> up to the parsed object: a dictionary with a key
  \<^verbatim>\<open>result\<close> is the channel's envelope and the text lies under
  \<^verbatim>\<open>result/result/value\<close> (default \<^verbatim>\<open>"{}"\<close>); anything else is parsed as it
  is.
\<close>

definition parse_results :: "json_parser \<Rightarrow> pyval \<Rightarrow> exn + pyval" where
  "parse_results jl results_json =
     (case results_json of
        PDict d \<Rightarrow>
          (if map_of d ''result'' \<noteq> None then
             ebind (py_get (dict_get d ''result'' (PDict [])) ''result'' (PDict []))
               (\<lambda>inner. ebind (py_get inner ''value'' (PStr ''{}''))
                  (\<lambda>json_str. json_loads jl json_str))
           else json_loads jl results_json)
      | _ \<Rightarrow> json_loads jl results_json)"

text \<open>The rest of the \<^verbatim>\<open>try\<close>: the outcome read off the parsed object, with the
  error record of the failure branch.\<close>

definition outcome_of_results ::
  "pyval \<Rightarrow> pyval \<Rightarrow> pyval \<Rightarrow> exn + (pydict \<times> event list)" where
  "outcome_of_results partner_name partner_id results =
     ebind (py_get results ''success'' PNone) (\<lambda>success.
       if truthy success then
         ebind (py_get results ''activated'' (PInt 0)) (\<lambda>activated.
         ebind (py_get results ''total'' (PInt 0)) (\<lambda>coupons_total.
         ebind (py_get results ''alreadyActivated'' (PBool False)) (\<lambda>already.
           Inr (success_outcome partner_name partner_id activated coupons_total already,
                []))))
       else
         ebind (py_get results ''error'' (PStr ''Unknown error'')) (\<lambda>err.
           Inr (failure_outcome partner_name partner_id err,
                [Log ERROR ''Activation failed''])))"

definition process_results ::
  "json_parser \<Rightarrow> pyval \<Rightarrow> pyval \<Rightarrow> pyval \<Rightarrow> pydict \<times> event list" where
  "process_results jl partner_name partner_id results_json =
     (if truthy results_json then
        (case ebind (parse_results jl results_json)
                (outcome_of_results partner_name partner_id) of
           Inr out \<Rightarrow> out
         | Inl e \<Rightarrow>
             (failure_outcome partner_name partner_id (PStr (str_exn e)),
              [Log ERROR (''Error processing activation results: '' @ str_exn e)]))
      else
        (failure_outcome partner_name partner_id (PStr ''Failed to get activation results''),
         [Log ERROR ''Failed to get activation results'']))"

text \<open>The first part of \<^verbatim>\<open>activate_coupons_for_partner\<close>: navigation to the partner's
  coupons, the debug screenshot, the activation script and the script that stores its
  result as JSON text in the page.\<close>

definition send_activation :: "world \<Rightarrow> activator \<Rightarrow> pyval \<Rightarrow> pyval \<Rightarrow> pyval action" where
  "send_activation w a partner_name partner_id =
     seq (do_call w (GoTo (CouponsUrl partner_id))) (\<lambda>_.
     seq (if debug_mode a \<or> is_github_actions a
          then do_call w (DebugScreenshot partner_name) else ret PNone) (\<lambda>_.
     seq (do_call w (ExecuteScript ActivationScript)) (\<lambda>_.
     do_call w (ExecuteScript StoreResultsScript))))"

definition activate_coupons_for_partner ::
  "json_parser \<Rightarrow> world \<Rightarrow> activator \<Rightarrow> pyval \<Rightarrow> pyval \<Rightarrow> pydict action" where
  "activate_coupons_for_partner jl w a partner_name partner_id =
     seq (send_activation w a partner_name partner_id) (\<lambda>_.
     seq (do_call w (ExecuteScript ReadResultsScript)) (\<lambda>results_json.
       (\<lambda>tr. case process_results jl partner_name partner_id results_json of
               (out, logs) \<Rightarrow> (Inr out, tr @ logs))))"


section \<open>The run\<close>

text \<open>
  The dictionary that \<^verbatim>\<open>run\<close> returns. The two early returns carry only the lists
  and an error text; the return at the end carries the lists, the totals and the paths
  of the evidence files.
\<close>

record run_result =
  successful :: "pydict list"
  failed :: "pydict list"
  error :: "string option"
  total_activated :: "int option"
  total_available :: "int option"
  screenshot_path :: "string option"
  html_path :: "string option"

definition early_result :: "string \<Rightarrow> run_result" where
  "early_result msg =
     \<lparr>successful = [], failed = [], error = Some msg,
      total_activated = None, total_available = None,
      screenshot_path = None, html_path = None\<rparr>"

definition exec :: "world \<Rightarrow> script \<Rightarrow> pyval action" where
  "exec w s = do_call w (ExecuteScript s)"

text \<open>
  From the start of the browser to the login check. The cookie button and the login
  check are the two steps inside a \<^verbatim>\<open>try\<close>; the four form scripts are not. The
  value is \<open>Some r\<close> when \<^verbatim>\<open>run\<close> returns \<open>r\<close> at the login check.
\<close>

definition login :: "world \<Rightarrow> activator \<Rightarrow> run_result option action" where
  "login w a =
     seq (do_call w BrowserStart) (\<lambda>_.
     seq (do_call w GetPage) (\<lambda>_.
     seq (exec w UserAgentScript) (\<lambda>_.
     seq (do_call w (GoTo LoginUrl)) (\<lambda>_.
     seq (try_except
            (seq (do_call w FindCookieButton) (\<lambda>_.
             seq (do_call w ClickCookieButton) (\<lambda>_. ret ())))
            (\<lambda>e. log WARNING (''Could not find or click cookie button: '' @ str_exn e))) (\<lambda>_.
     seq (exec w (UsernameScript (username a))) (\<lambda>_.
     seq (exec w ContinueScript) (\<lambda>_.
     seq (exec w (PasswordScript (password a))) (\<lambda>_.
     seq (exec w LoginScript) (\<lambda>_.
     try_except
       (seq (exec w VerifyScript) (\<lambda>_. ret None))
       (\<lambda>e. seq (log ERROR (''Error checking login status: '' @ str_exn e)) (\<lambda>_.
             ret (Some (early_result (''Login failed: '' @ str_exn e))))))))))))))"

definition no_partner_outcome :: "pyval \<Rightarrow> pydict" where
  "no_partner_outcome merchant_name =
     [(''partner_name'', merchant_name),
      (''error'', PStr ''No partner_id specified''),
      (''success'', PBool False)]"

text \<open>The loop over the merchants; its state is the three lists
  \<^verbatim>\<open>activation_results\<close>, \<^verbatim>\<open>successful\<close> and \<^verbatim>\<open>failed\<close>.\<close>

type_synonym loop_state = "pydict list \<times> pydict list \<times> pydict list"

fun process_merchants ::
  "json_parser \<Rightarrow> world \<Rightarrow> activator \<Rightarrow> pydict list \<Rightarrow> loop_state \<Rightarrow> loop_state action" where
  "process_merchants jl w a [] st = ret st"
| "process_merchants jl w a (merchant # rest) (activation_results, succ, fl) =
     (let merchant_name = dict_get merchant ''name'' (PStr ''Unknown'');
          partner_id = dict_get merchant ''partner_id'' (PStr [])
      in if \<not> truthy partner_id then
           seq (log WARNING ''Skipping: No partner_id specified'') (\<lambda>_.
             process_merchants jl w a rest
               (activation_results, succ, fl @ [no_partner_outcome merchant_name]))
         else
           seq (activate_coupons_for_partner jl w a merchant_name partner_id) (\<lambda>result.
             process_merchants jl w a rest
               (if truthy (dict_get result ''success'' (PBool False))
                then (activation_results @ [result], succ @ [result], fl)
                else (activation_results @ [result], succ, fl @ [result]))))"

text \<open>The summary loop over \<^verbatim>\<open>activation_results\<close>, with the two running totals.\<close>

fun summarize :: "pydict list \<Rightarrow> int \<times> int \<Rightarrow> (int \<times> int) action" where
  "summarize [] totals = ret totals"
| "summarize (result # rest) (total_act, total_avail) =
     (if truthy (dict_get result ''success'' (PBool False)) then
        (case py_add total_act (dict_get result ''activated'' (PInt 0)) of
           Inl e \<Rightarrow> (\<lambda>tr. (Inl e, tr))
         | Inr total_act' \<Rightarrow>
             (case py_add total_avail (dict_get result ''total'' (PInt 0)) of
                Inl e \<Rightarrow> (\<lambda>tr. (Inl e, tr))
              | Inr total_avail' \<Rightarrow> summarize rest (total_act', total_avail')))
      else
        seq (log ERROR ''Failed'') (\<lambda>_. summarize rest (total_act, total_avail)))"

text \<open>
  The overview at the end: navigation, screenshot and page source are plain calls; only
  the writing of the markup file is inside a \<^verbatim>\<open>try\<close>. \<open>timestamp\<close> is the
  formatted reading of the clock.
\<close>

definition capture_evidence :: "world \<Rightarrow> string \<Rightarrow> (string \<times> string) action" where
  "capture_evidence w timestamp =
     (let screenshot = ''payback_coupons_'' @ timestamp @ ''.png'';
          html = ''payback_coupons_'' @ timestamp @ ''.html''
      in seq (do_call w (GoTo (CouponsUrl (PStr [])))) (\<lambda>_.
         seq (do_call w (GetScreenshot screenshot)) (\<lambda>_.
         seq (do_call w PageSource) (\<lambda>html_content.
         seq (try_except
                (seq (do_call w (WriteFile html)) (\<lambda>_. ret ()))
                (\<lambda>e. log ERROR (''Error saving HTML content: '' @ str_exn e))) (\<lambda>_.
         ret (screenshot, html))))))"

text \<open>
  \<^verbatim>\<open>run\<close>: the early return for an empty merchant list, then, inside the browser,
  the login, the merchant loop, the summary and the evidence. The browser options that
  the source assembles before it opens the browser enter no result and are left out.
\<close>

definition run :: "json_parser \<Rightarrow> world \<Rightarrow> string \<Rightarrow> activator \<Rightarrow> run_result action" where
  "run jl w timestamp a =
     (if merchants a = [] then
        seq (log WARNING ''No merchants found in config. Please add at least one merchant.'')
          (\<lambda>_. ret (early_result ''No merchants configured''))
      else
        with_browser w
          (seq (login w a) (\<lambda>early.
             case early of
               Some r \<Rightarrow> ret r
             | None \<Rightarrow>
                 seq (process_merchants jl w a (merchants a) ([], [], []))
                   (\<lambda>(activation_results, succ, fl).
                 seq (summarize activation_results (0, 0)) (\<lambda>(total_act, total_avail).
                 seq (capture_evidence w timestamp) (\<lambda>(screenshot, html).
                 ret \<lparr>successful = succ, failed = fl, error = None,
                      total_activated = Some total_act,
                      total_available = Some total_avail,
                      screenshot_path = Some screenshot,
                      html_path = Some html\<rparr>))))))"


section \<open>The notifier and the entry point\<close>

text \<open>The loaded configuration document: the list of merchant entries and the
  dictionary of options.\<close>

record config =
  cfg_merchants :: "pydict list"
  cfg_options :: pydict

definition should_notify :: "pydict \<Rightarrow> run_result \<Rightarrow> bool" where
  "should_notify options results =
     ((successful results \<noteq> [] \<and> truthy (dict_get options ''notify_on_success'' (PBool True)))
      \<or> (failed results \<noteq> [] \<and> truthy (dict_get options ''notify_on_failure'' (PBool True))))"

text \<open>The message is printed and logged at level INFO; the results file is written inside
  a \<^verbatim>\<open>try\<close>.\<close>

definition notify :: "world \<Rightarrow> pydict \<Rightarrow> run_result \<Rightarrow> bool action" where
  "notify w options results =
     (if \<not> should_notify options results then ret False
      else
        seq (try_except
               (seq (do_call w SaveResults) (\<lambda>_. ret ()))
               (\<lambda>e. log ERROR (''Error saving results: '' @ str_exn e))) (\<lambda>_.
        ret True))"

record args =
  arg_username :: "string option"
  arg_password :: "string option"
  arg_no_notify :: bool
  arg_headless :: bool

record environ =
  PAYBACK_USERNAME :: "string option"
  PAYBACK_PASSWORD :: "string option"
  GITHUB_ACTIONS :: "string option"
  DEBUG :: "string option"

text \<open>\<^verbatim>\<open>a or b\<close> on optional strings: \<open>a\<close> when it is a non-empty string.\<close>

definition str_or :: "string option \<Rightarrow> string option \<Rightarrow> string option" where
  "str_or a b = (case a of None \<Rightarrow> b | Some s \<Rightarrow> (if s = [] then b else a))"

text \<open>\<^verbatim>\<open>not x\<close> on an optional string.\<close>

definition absent :: "string option \<Rightarrow> bool" where
  "absent a = (case a of None \<Rightarrow> True | Some s \<Rightarrow> s = [])"

definition main_async ::
  "json_parser \<Rightarrow> world \<Rightarrow> string \<Rightarrow> config \<Rightarrow> environ \<Rightarrow> string \<Rightarrow> string \<Rightarrow> bool
   \<Rightarrow> run_result action" where
  "main_async jl w timestamp cfg env user pw hl =
     run jl w timestamp
       \<lparr>username = user, password = pw, headless = hl,
        is_github_actions = (GITHUB_ACTIONS env = Some ''true''),
        debug_mode = (DEBUG env = Some ''1''),
        merchants = cfg_merchants cfg\<rparr>"

definition exit_code_of :: "run_result \<Rightarrow> int action" where
  "exit_code_of results =
     (if failed results \<noteq> [] \<and> successful results = [] then
        seq (log ERROR ''All coupon activations failed'') (\<lambda>_. ret 1)
      else if failed results \<noteq> [] then
        seq (log WARNING ''Some coupon activations failed'') (\<lambda>_. ret 0)
      else ret 0)"

text \<open>The process exit code of \<^verbatim>\<open>activate.py\<close>, with the trace of the process.\<close>

definition main ::
  "json_parser \<Rightarrow> world \<Rightarrow> string \<Rightarrow> config \<Rightarrow> environ \<Rightarrow> args \<Rightarrow> int \<times> event list" where
  "main jl w timestamp cfg env argv =
     (let user = str_or (arg_username argv) (PAYBACK_USERNAME env);
          pw = str_or (arg_password argv) (PAYBACK_PASSWORD env)
      in if absent user \<or> absent pw then
           (1, [Log ERROR ''Payback credentials not provided''])
         else
           (case seq (main_async jl w timestamp cfg env
                        (case user of Some u \<Rightarrow> u | None \<Rightarrow> [])
                        (case pw of Some p \<Rightarrow> p | None \<Rightarrow> [])
                        (arg_headless argv)) (\<lambda>results.
                 seq (if \<not> arg_no_notify argv
                      then notify w (cfg_options cfg) results else ret False) (\<lambda>_.
                 exit_code_of results)) [] of
              (Inr code, tr) \<Rightarrow> (code, tr)
            | (Inl e, tr) \<Rightarrow>
                (1, tr @ [Log ERROR (''Error during coupon activation: '' @ str_exn e)])))"

section \<open>The activation script\<close>

text \<open>
  The script that \<^verbatim>\<open>activate_coupons_for_partner\<close> sends to the page walks nested
  shadow roots. The page is modelled by what the script can see of it: the shadow root
  of the coupon center answers a container selector with the coupons of the container
  it finds; a coupon has a shadow root with call-to-action elements, each with a shadow
  root of buttons, all in document order. A button carries its classes, its text and
  whether its parent is a \<^verbatim>\<open>div\<close>. Console output is left out.
\<close>

record button =
  btn_classes :: "string list"
  btn_text :: string
  btn_in_div :: bool

record call_to_action =
  cta_in_div :: bool
  cta_shadow :: "button list option"

record coupon =
  coupon_shadow :: "call_to_action list option"

datatype coupon_center =
    NoCenter
  | NoShadowRoot
  | ShadowRoot "string \<Rightarrow> coupon list option"

record document =
  doc_center :: coupon_center
  doc_body :: string
  doc_url :: string
  doc_title :: string

text \<open>\<^verbatim>\<open>for (i = 0; i < sels.length && !found; i++) found = root.querySelector(sels[i])\<close>\<close>

fun first_match :: "('s \<Rightarrow> 'a option) \<Rightarrow> 's list \<Rightarrow> 'a option" where
  "first_match q [] = None"
| "first_match q (s # ss) = (case q s of Some x \<Rightarrow> Some x | None \<Rightarrow> first_match q ss)"

definition container_selectors :: "string list" where
  "container_selectors =
     [''div > div.coupon-center__container > div.coupon-center__published-column.column--double > div.coupon-center__container-published-coupons'',
      ''div > div.coupon-center__container > div.coupon-center__published-column > div.coupon-center__container-published-coupons'',
      ''div.coupon-center__container div.coupon-center__container-published-coupons'',
      ''div.coupon-center__published-column div.coupon-center__container-published-coupons'']"

text \<open>A button selector: an optional \<^verbatim>\<open>div >\<close> parent, the classes required and the
  classes excluded by \<^verbatim>\<open>:not(...)\<close>.\<close>

record selector =
  sel_in_div :: bool
  sel_classes :: "string list"
  sel_not :: "string list"

definition matches :: "selector \<Rightarrow> button \<Rightarrow> bool" where
  "matches s b =
     ((btn_in_div b \<or> \<not> sel_in_div s)
      \<and> list_all (\<lambda>c. c \<in> set (btn_classes b)) (sel_classes s)
      \<and> list_all (\<lambda>c. c \<notin> set (btn_classes b)) (sel_not s))"

definition query_selector :: "button list \<Rightarrow> selector \<Rightarrow> button option" where
  "query_selector bs s = find (matches s) bs"

definition button_selectors :: "selector list" where
  "button_selectors =
     [\<lparr>sel_in_div = True,
       sel_classes = [''coupon-call-to-action__button'', ''coupon__activate-button'', ''not-activated''],
       sel_not = []\<rparr>,
      \<lparr>sel_in_div = False,
       sel_classes = [''coupon-call-to-action__button'', ''coupon__activate-button'', ''not-activated''],
       sel_not = []\<rparr>,
      \<lparr>sel_in_div = False, sel_classes = [''not-activated''], sel_not = []\<rparr>,
      \<lparr>sel_in_div = False, sel_classes = [], sel_not = [''activated'']\<rparr>]"

text \<open>\<^verbatim>\<open>toLowerCase\<close> on the ASCII letters, and \<^verbatim>\<open>text.includes(pat)\<close>.\<close>

definition to_lower :: "char \<Rightarrow> char" where
  "to_lower c =
     (let n = (of_char c :: nat) in if 65 \<le> n \<and> n \<le> 90 then char_of (n + 32) else c)"

fun str_includes :: "string \<Rightarrow> string \<Rightarrow> bool" where
  "str_includes [] pat = (pat = [])"
| "str_includes (c # cs) pat = (take (length pat) (c # cs) = pat \<or> str_includes cs pat)"

text \<open>The button to click in a call-to-action shadow root: the first selector that
  finds one, else the first button whose text contains \<^verbatim>\<open>aktivieren\<close>.\<close>

definition find_button :: "button list \<Rightarrow> button option" where
  "find_button bs =
     (case first_match (query_selector bs) button_selectors of
        Some b \<Rightarrow> Some b
      | None \<Rightarrow> find (\<lambda>b. str_includes (map to_lower (btn_text b)) ''aktivieren'') bs)"

text \<open>The call-to-action element of a coupon: \<^verbatim>\<open>div > pbc-coupon-call-to-action\<close>
  first, then \<^verbatim>\<open>pbc-coupon-call-to-action\<close>.\<close>

definition find_call_to_action :: "call_to_action list \<Rightarrow> call_to_action option" where
  "find_call_to_action ctas =
     (case find cta_in_div ctas of
        Some c \<Rightarrow> Some c
      | None \<Rightarrow> (case ctas of [] \<Rightarrow> None | c # _ \<Rightarrow> Some c))"

text \<open>The button that the loop body clicks for one coupon, if any.\<close>

definition coupon_button :: "coupon \<Rightarrow> button option" where
  "coupon_button c =
     (case coupon_shadow c of
        None \<Rightarrow> None
      | Some ctas \<Rightarrow>
          (case find_call_to_action ctas of
             None \<Rightarrow> None
           | Some cta \<Rightarrow>
               (case cta_shadow cta of None \<Rightarrow> None | Some bs \<Rightarrow> find_button bs)))"

text \<open>The object that the script leaves in \<^verbatim>\<open>window.activationResults\<close>.\<close>

definition activation_script :: "document \<Rightarrow> pydict" where
  "activation_script doc =
     (case doc_center doc of
        ShadowRoot q \<Rightarrow>
          (case first_match q container_selectors of
             None \<Rightarrow>
               [(''success'', PBool True),
                (''error'', PStr ''No coupons to activate''),
                (''activated'', PInt 0),
                (''total'', PInt 0),
                (''alreadyActivated'', PBool True)]
           | Some coupons \<Rightarrow>
               [(''success'', PBool True),
                (''activated'',
                   PInt (int (length (filter (\<lambda>c. coupon_button c \<noteq> None) coupons)))),
                (''total'', PInt (int (length coupons)))])
      | _ \<Rightarrow>
          [(''success'', PBool False),
           (''error'', PStr ''Coupon center not found''),
           (''activated'', PInt 0),
           (''total'', PInt 0),
           (''debugInfo'',
              PDict [(''hasCouponCenter'', PBool (doc_center doc \<noteq> NoCenter)),
                     (''hasShadowRoot'', PBool False),
                     (''bodyContent'', PStr (take 1000 (doc_body doc))),
                     (''urlPath'', PStr (doc_url doc)),
                     (''title'', PStr (doc_title doc))])])"

text \<open>
  A page on which every coupon is already activated: the coupon center is there, and in
  the container that the script finds, if it finds one, every button of every coupon has
  the class \<^verbatim>\<open>activated\<close>, has not the class \<^verbatim>\<open>not-activated\<close> and does not
  offer activation in its text.
\<close>

definition button_activated :: "button \<Rightarrow> bool" where
  "button_activated b =
     (''activated'' \<in> set (btn_classes b)
      \<and> ''not-activated'' \<notin> set (btn_classes b)
      \<and> \<not> str_includes (map to_lower (btn_text b)) ''aktivieren'')"

definition coupon_activated :: "coupon \<Rightarrow> bool" where
  "coupon_activated c =
     (case coupon_shadow c of
        None \<Rightarrow> True
      | Some ctas \<Rightarrow>
          list_all (\<lambda>cta. case cta_shadow cta of
                            None \<Rightarrow> True
                          | Some bs \<Rightarrow> list_all button_activated bs) ctas)"

definition all_activated :: "document \<Rightarrow> bool" where
  "all_activated doc =
     (case doc_center doc of
        ShadowRoot q \<Rightarrow>
          (case first_match q container_selectors of
             None \<Rightarrow> True
           | Some coupons \<Rightarrow> list_all coupon_activated coupons)
      | _ \<Rightarrow> False)"

definition container_found :: "document \<Rightarrow> bool" where
  "container_found doc =
     (case doc_center doc of
        ShadowRoot q \<Rightarrow> first_match q container_selectors \<noteq> None
      | _ \<Rightarrow> False)"

section \<open>Notions used in the statements\<close>

text \<open>The test \<^verbatim>\<open>result.get("success", False)\<close> that sorts an outcome into one of the
  two lists, and the test \<^verbatim>\<open>partner_id\<close> of the merchant loop.\<close>

definition is_success :: "pydict \<Rightarrow> bool" where
  "is_success out = truthy (dict_get out ''success'' (PBool False))"

definition has_partner_id :: "pydict \<Rightarrow> bool" where
  "has_partner_id merchant = truthy (dict_get merchant ''partner_id'' (PStr []))"

text \<open>An outcome belongs to a merchant when it carries the merchant's name.\<close>

definition outcome_for :: "pydict \<Rightarrow> pydict \<Rightarrow> bool" where
  "outcome_for merchant out =
     (dict_get out ''partner_name'' PNone = dict_get merchant ''name'' (PStr ''Unknown''))"

definition activated_count :: "pydict \<Rightarrow> int" where
  "activated_count out = int_of (dict_get out ''activated'' (PInt 0))"

text \<open>A world that answers every call, and a world that raises on one call.\<close>

definition answering :: "(event list \<Rightarrow> call \<Rightarrow> pyval) \<Rightarrow> world" where
  "answering f tr c = Inr (f tr c)"

definition failing_at :: "call \<Rightarrow> exn \<Rightarrow> world \<Rightarrow> world" where
  "failing_at bad e w tr c = (if c = bad then Inl e else w tr c)"

text \<open>The calls that only the capture of the evidence makes.\<close>

fun evidence_call :: "call \<Rightarrow> bool" where
  "evidence_call (GetScreenshot p) = True"
| "evidence_call PageSource = True"
| "evidence_call (WriteFile p) = True"
| "evidence_call c = False"

text \<open>The calls of \<^verbatim>\<open>run\<close> up to the form scripts, and those of the form.\<close>

definition start_calls :: "event list" where
  "start_calls =
     [Call BrowserOpen, Call BrowserStart, Call GetPage,
      Call (ExecuteScript UserAgentScript), Call (GoTo LoginUrl)]"

definition cookie_calls :: "event list" where
  "cookie_calls = [Call FindCookieButton, Call ClickCookieButton]"

definition form_calls :: "activator \<Rightarrow> event list" where
  "form_calls a =
     [Call (ExecuteScript (UsernameScript (username a))),
      Call (ExecuteScript ContinueScript),
      Call (ExecuteScript (PasswordScript (password a))),
      Call (ExecuteScript LoginScript)]"


section \<open>Example inputs\<close>

text \<open>
  Two merchants; the page hands out the stored result of the first merchant at the first
  read and that of the second at every later read. The first result reports 3 of 5
  coupons activated, the second reports that the coupon center was not found. The text
  of an empty object parses to the empty dictionary; every other text is rejected with
  the message of the parser.
\<close>

definition ex_world :: world where
  "ex_world tr c =
     (if c = ExecuteScript ReadResultsScript then
        (if Call c \<notin> set tr then Inr (PStr ''results-A'') else Inr (PStr ''results-B''))
      else Inr PNone)"

definition ex_jl :: json_parser where
  "ex_jl s =
     (if s = ''results-A'' then
        Inr (PDict [(''success'', PBool True), (''activated'', PInt 3), (''total'', PInt 5)])
      else if s = ''results-B'' then
        Inr (PDict [(''success'', PBool False), (''error'', PStr ''Coupon center not found'')])
      else if s = ''{}'' then Inr (PDict [])
      else Inl ''Expecting value: line 1 column 1 (char 0)'')"

definition ex_merchants :: "pydict list" where
  "ex_merchants =
     [[(''name'', PStr ''A''), (''partner_id'', PStr ''101'')],
      [(''name'', PStr ''B''), (''partner_id'', PStr ''202'')]]"

definition ex_activator :: activator where
  "ex_activator =
     \<lparr>username = ''user'', password = ''secret'', headless = True,
      is_github_actions = False, debug_mode = False, merchants = ex_merchants\<rparr>"

definition ex_outcome_A :: pydict where
  "ex_outcome_A =
     [(''partner_name'', PStr ''A''), (''partner_id'', PStr ''101''),
      (''activated'', PInt 3), (''total'', PInt 5),
      (''success'', PBool True), (''alreadyActivated'', PBool False)]"

definition ex_outcome_B :: pydict where
  "ex_outcome_B =
     [(''partner_name'', PStr ''B''), (''partner_id'', PStr ''202''),
      (''error'', PStr ''Coupon center not found''), (''success'', PBool False)]"

definition ex_result :: run_result where
  "ex_result =
     \<lparr>successful = [ex_outcome_A], failed = [ex_outcome_B], error = None,
      total_activated = Some 3, total_available = Some 5,
      screenshot_path = Some ''payback_coupons_ts.png'',
      html_path = Some ''payback_coupons_ts.html''\<rparr>"

definition ex_config :: config where
  "ex_config = \<lparr>cfg_merchants = ex_merchants, cfg_options = []\<rparr>"

definition ex_environ :: environ where
  "ex_environ =
     \<lparr>PAYBACK_USERNAME = Some ''user'', PAYBACK_PASSWORD = Some ''secret'',
      GITHUB_ACTIONS = None, DEBUG = None\<rparr>"

definition ex_args :: args where
  "ex_args =
     \<lparr>arg_username = None, arg_password = None, arg_no_notify = False, arg_headless = True\<rparr>"

text \<open>One merchant without a partner id.\<close>

definition ex_nameless :: activator where
  "ex_nameless = ex_activator\<lparr>merchants := [[(''name'', PStr ''C'')]]\<rparr>"

definition ex_nameless_result :: run_result where
  "ex_nameless_result =
     \<lparr>successful = [], failed = [no_partner_outcome (PStr ''C'')], error = None,
      total_activated = Some 0, total_available = Some 0,
      screenshot_path = Some ''payback_coupons_ts.png'',
      html_path = Some ''payback_coupons_ts.html''\<rparr>"

text \<open>A page that shows one coupon whose only button is in the activated state.\<close>

definition ex_activated_button :: button where
  "ex_activated_button =
     \<lparr>btn_classes = [''coupon-call-to-action__button'', ''coupon__activate-button'', ''activated''],
      btn_text = ''Aktiviert'', btn_in_div = True\<rparr>"

definition ex_activated_coupon :: coupon where
  "ex_activated_coupon =
     \<lparr>coupon_shadow = Some [\<lparr>cta_in_div = True, cta_shadow = Some [ex_activated_button]\<rparr>]\<rparr>"

definition ex_published :: "string \<Rightarrow> coupon list option" where
  "ex_published sel = Some [ex_activated_coupon]"

definition ex_document :: document where
  "ex_document =
     \<lparr>doc_center = ShadowRoot ex_published, doc_body = [],
      doc_url = ''https://www.payback.de/coupons?partnerId=101'', doc_title = ''Coupons''\<rparr>"


text \<open>A page whose stored result is no JSON text, and the envelope that the channel
  returns for a page variable that was never set: it has a type and no value.\<close>

definition ex_malformed_answer :: "event list \<Rightarrow> call \<Rightarrow> pyval" where
  "ex_malformed_answer tr c =
     (if c = ExecuteScript ReadResultsScript then PStr ''<html>not json</html>'' else PNone)"

definition ex_undefined_envelope :: pyval where
  "ex_undefined_envelope =
     PDict [(''id'', PInt 7),
            (''result'', PDict [(''result'', PDict [(''type'', PStr ''undefined'')])])]"

section \<open>Auxiliary facts\<close>

lemmas monad_defs = seq_def ret_def log_def do_call_def try_except_def exec_def

lemma seq_InrE:
  assumes "seq m f tr = (Inr y, tr')"
  obtains x tr1 where "m tr = (Inr x, tr1)" "f x tr1 = (Inr y, tr')"
  using assms by (auto simp: seq_def split: prod.splits sum.splits)

subsection \<open>Outcomes carry the merchant's name\<close>

lemma outcome_of_results_name:
  "outcome_of_results n p r = Inr (out, logs) \<Longrightarrow> dict_get out ''partner_name'' PNone = n"
  by (cases r) (auto simp: outcome_of_results_def success_outcome_def failure_outcome_def
      dict_get_def py_get_def ebind_def split: if_splits)

lemma process_results_name:
  "dict_get (fst (process_results jl n p rj)) ''partner_name'' PNone = n"
proof (cases "truthy rj")
  case False
  then show ?thesis by (simp add: process_results_def failure_outcome_def dict_get_def)
next
  case True
  show ?thesis
  proof (cases "ebind (parse_results jl rj) (outcome_of_results n p)")
    case (Inl e)
    with True show ?thesis by (simp add: process_results_def failure_outcome_def dict_get_def)
  next
    case (Inr out)
    obtain r where r: "parse_results jl rj = Inr r" "outcome_of_results n p r = Inr out"
      using Inr by (auto simp: ebind_def split: sum.splits)
    from r(2) have "dict_get (fst out) ''partner_name'' PNone = n"
      by (cases out) (auto dest: outcome_of_results_name)
    with True Inr show ?thesis by (simp add: process_results_def)
  qed
qed

lemma activate_outcome:
  "activate_coupons_for_partner jl w a n p tr = (Inr out, tr') \<Longrightarrow>
     \<exists>rj logs. process_results jl n p rj = (out, logs)"
  by (auto simp: activate_coupons_for_partner_def seq_def do_call_def
           split: prod.splits sum.splits)

lemma activate_name:
  assumes "activate_coupons_for_partner jl w a n p tr = (Inr out, tr')"
  shows "dict_get out ''partner_name'' PNone = n"
proof -
  from activate_outcome[OF assms] obtain rj logs where
    "process_results jl n p rj = (out, logs)" by blast
  then have "out = fst (process_results jl n p rj)" by simp
  then show ?thesis by (simp add: process_results_name)
qed

lemma no_partner_not_success: "\<not> is_success (no_partner_outcome n)"
  by (simp add: is_success_def no_partner_outcome_def dict_get_def)

lemma no_partner_name: "dict_get (no_partner_outcome n) ''partner_name'' PNone = n"
  by (simp add: no_partner_outcome_def dict_get_def)

subsection \<open>The merchant loop sorts one outcome per merchant\<close>

lemma process_merchants_partition:
  "process_merchants jl w a ms (ar, s, f) tr = (Inr (ar', s', f'), tr') \<Longrightarrow>
     \<exists>outs. list_all2 outcome_for ms outs
          \<and> s' = s @ filter is_success outs
          \<and> f' = f @ filter (\<lambda>out. \<not> is_success out) outs"
proof (induction ms arbitrary: ar s f tr)
  case Nil
  then show ?case by (simp add: ret_def)
next
  case (Cons m ms)
  let ?n = "dict_get m ''name'' (PStr ''Unknown'')"
  let ?p = "dict_get m ''partner_id'' (PStr [])"
  show ?case
  proof (cases "truthy ?p")
    case False
    with Cons.prems have "process_merchants jl w a ms (ar, s, f @ [no_partner_outcome ?n])
        (tr @ [Log WARNING ''Skipping: No partner_id specified'']) = (Inr (ar', s', f'), tr')"
      by (simp add: seq_def log_def Let_def)
    from Cons.IH[OF this] obtain outs where o: "list_all2 outcome_for ms outs"
      "s' = s @ filter is_success outs"
      "f' = (f @ [no_partner_outcome ?n]) @ filter (\<lambda>out. \<not> is_success out) outs" by blast
    have "list_all2 outcome_for (m # ms) (no_partner_outcome ?n # outs)"
      using o(1) by (simp add: outcome_for_def no_partner_name)
    moreover have "s' = s @ filter is_success (no_partner_outcome ?n # outs)"
      using o(2) by (simp add: no_partner_not_success)
    moreover have "f' = f @ filter (\<lambda>out. \<not> is_success out) (no_partner_outcome ?n # outs)"
      using o(3) by (simp add: no_partner_not_success)
    ultimately show ?thesis by blast
  next
    case True
    from Cons.prems True obtain out tr1 where
      act: "activate_coupons_for_partner jl w a ?n ?p tr = (Inr out, tr1)" and
      rest: "process_merchants jl w a ms
               (if is_success out then (ar @ [out], s @ [out], f)
                else (ar @ [out], s, f @ [out])) tr1 = (Inr (ar', s', f'), tr')"
      by (auto simp: seq_def Let_def is_success_def split: prod.splits sum.splits)
    have nm: "outcome_for m out" using activate_name[OF act] by (simp add: outcome_for_def)
    show ?thesis
    proof (cases "is_success out")
      case True
      with rest have "process_merchants jl w a ms (ar @ [out], s @ [out], f) tr1
                        = (Inr (ar', s', f'), tr')"
        by simp
      from Cons.IH[OF this] obtain outs where o: "list_all2 outcome_for ms outs"
        "s' = (s @ [out]) @ filter is_success outs"
        "f' = f @ filter (\<lambda>out. \<not> is_success out) outs" by blast
      have "list_all2 outcome_for (m # ms) (out # outs)" using o(1) nm by simp
      moreover have "s' = s @ filter is_success (out # outs)" using o(2) True by simp
      moreover have "f' = f @ filter (\<lambda>out. \<not> is_success out) (out # outs)"
        using o(3) True by simp
      ultimately show ?thesis by blast
    next
      case False
      with rest have "process_merchants jl w a ms (ar @ [out], s, f @ [out]) tr1
                        = (Inr (ar', s', f'), tr')"
        by simp
      from Cons.IH[OF this] obtain outs where o: "list_all2 outcome_for ms outs"
        "s' = s @ filter is_success outs"
        "f' = (f @ [out]) @ filter (\<lambda>out. \<not> is_success out) outs" by blast
      have "list_all2 outcome_for (m # ms) (out # outs)" using o(1) nm by simp
      moreover have "s' = s @ filter is_success (out # outs)" using o(2) False by simp
      moreover have "f' = f @ filter (\<lambda>out. \<not> is_success out) (out # outs)"
        using o(3) False by simp
      ultimately show ?thesis by blast
    qed
  qed
qed

lemma process_merchants_results:
  "process_merchants jl w a ms (ar, s, f) tr = (Inr (ar', s', f'), tr') \<Longrightarrow>
     filter is_success ar = s \<Longrightarrow> filter is_success ar' = s'"
proof (induction ms arbitrary: ar s f tr)
  case Nil
  then show ?case by (simp add: ret_def)
next
  case (Cons m ms)
  let ?n = "dict_get m ''name'' (PStr ''Unknown'')"
  let ?p = "dict_get m ''partner_id'' (PStr [])"
  show ?case
  proof (cases "truthy ?p")
    case False
    with Cons.prems(1) have "process_merchants jl w a ms (ar, s, f @ [no_partner_outcome ?n])
        (tr @ [Log WARNING ''Skipping: No partner_id specified'']) = (Inr (ar', s', f'), tr')"
      by (simp add: seq_def log_def Let_def)
    from Cons.IH[OF this Cons.prems(2)] show ?thesis .
  next
    case True
    from Cons.prems(1) True obtain out tr1 where
      rest: "process_merchants jl w a ms
               (if is_success out then (ar @ [out], s @ [out], f)
                else (ar @ [out], s, f @ [out])) tr1 = (Inr (ar', s', f'), tr')"
      by (auto simp: seq_def Let_def is_success_def split: prod.splits sum.splits)
    show ?thesis
    proof (cases "is_success out")
      case True
      with rest have r: "process_merchants jl w a ms (ar @ [out], s @ [out], f) tr1
                           = (Inr (ar', s', f'), tr')"
        by simp
      have "filter is_success (ar @ [out]) = s @ [out]" using True Cons.prems(2) by simp
      from Cons.IH[OF r this] show ?thesis .
    next
      case False
      with rest have r: "process_merchants jl w a ms (ar @ [out], s, f @ [out]) tr1
                           = (Inr (ar', s', f'), tr')"
        by simp
      have "filter is_success (ar @ [out]) = s" using False Cons.prems(2) by simp
      from Cons.IH[OF r this] show ?thesis .
    qed
  qed
qed

subsection \<open>The summary loop adds up the successful outcomes\<close>

lemma py_add_int_of: "py_add n x = Inr n' \<Longrightarrow> n' = n + int_of x"
  by (cases x) (auto simp: py_add_def)

lemma summarize_totals:
  "summarize rs (ta, tv) tr = (Inr (ta', tv'), tr') \<Longrightarrow>
     ta' = ta + sum_list (map (\<lambda>out. int_of (dict_get out ''activated'' (PInt 0)))
                          (filter is_success rs))
   \<and> tv' = tv + sum_list (map (\<lambda>out. int_of (dict_get out ''total'' (PInt 0)))
                            (filter is_success rs))"
proof (induction rs arbitrary: ta tv tr)
  case Nil
  then show ?case by (simp add: ret_def)
next
  case (Cons r rs)
  show ?case
  proof (cases "is_success r")
    case True
    with Cons.prems obtain ta1 tv1 where
      a: "py_add ta (dict_get r ''activated'' (PInt 0)) = Inr ta1" and
      b: "py_add tv (dict_get r ''total'' (PInt 0)) = Inr tv1" and
      c: "summarize rs (ta1, tv1) tr = (Inr (ta', tv'), tr')"
      by (auto simp: is_success_def split: sum.splits)
    from Cons.IH[OF c] py_add_int_of[OF a] py_add_int_of[OF b] True show ?thesis by simp
  next
    case False
    with Cons.prems have "summarize rs (ta, tv) (tr @ [Log ERROR ''Failed''])
                            = (Inr (ta', tv'), tr')"
      by (simp add: is_success_def seq_def log_def)
    from Cons.IH[OF this] False show ?thesis by simp
  qed
qed

subsection \<open>The two ways in which a run returns\<close>

lemma login_early:
  "login w a tr = (Inr (Some r), tr') \<Longrightarrow> \<exists>msg. r = early_result msg"
  unfolding login_def
  apply (elim seq_InrE)
  apply (auto simp: try_except_def seq_def ret_def log_def split: prod.splits sum.splits)
  done

lemma run_cases:
  assumes "run jl w ts a tr = (Inr r, tr')"
  shows "(successful r = [] \<and> failed r = [] \<and> error r \<noteq> None \<and> total_activated r = None) \<or>
         (\<exists>ar tr1 tr2 ta tv tr3 tr4.
            process_merchants jl w a (merchants a) ([], [], []) tr1
              = (Inr (ar, successful r, failed r), tr2)
          \<and> summarize ar (0, 0) tr3 = (Inr (ta, tv), tr4)
          \<and> error r = None \<and> total_activated r = Some ta \<and> total_available r = Some tv)"
proof (cases "merchants a = []")
  case True
  with assms show ?thesis by (auto simp: run_def seq_def log_def ret_def early_result_def)
next
  case False
  with assms obtain tr0 tr0' where
    body: "seq (login w a) (\<lambda>early.
             case early of
               Some r \<Rightarrow> ret r
             | None \<Rightarrow>
                 seq (process_merchants jl w a (merchants a) ([], [], []))
                   (\<lambda>(activation_results, succ, fl).
                 seq (summarize activation_results (0, 0)) (\<lambda>(total_act, total_avail).
                 seq (capture_evidence w ts) (\<lambda>(screenshot, html).
                 ret \<lparr>successful = succ, failed = fl, error = None,
                      total_activated = Some total_act,
                      total_available = Some total_avail,
                      screenshot_path = Some screenshot,
                      html_path = Some html\<rparr>)))) tr0 = (Inr r, tr0')"
    by (auto simp: run_def with_browser_def split: prod.splits sum.splits)
  from body obtain early tr1 where lg: "login w a tr0 = (Inr early, tr1)"
    and rest: "(case early of
               Some r \<Rightarrow> ret r
             | None \<Rightarrow>
                 seq (process_merchants jl w a (merchants a) ([], [], []))
                   (\<lambda>(activation_results, succ, fl).
                 seq (summarize activation_results (0, 0)) (\<lambda>(total_act, total_avail).
                 seq (capture_evidence w ts) (\<lambda>(screenshot, html).
                 ret \<lparr>successful = succ, failed = fl, error = None,
                      total_activated = Some total_act,
                      total_available = Some total_avail,
                      screenshot_path = Some screenshot,
                      html_path = Some html\<rparr>)))) tr1 = (Inr r, tr0')"
    by (erule seq_InrE)
  show ?thesis
  proof (cases early)
    case (Some r0)
    with rest have "r = r0" by (simp add: ret_def)
    with login_early lg Some obtain msg where "r = early_result msg" by blast
    then show ?thesis by (simp add: early_result_def)
  next
    case None
    with rest obtain st tr2 where
      pm: "process_merchants jl w a (merchants a) ([], [], []) tr1 = (Inr st, tr2)" and
      r2: "(\<lambda>(activation_results, succ, fl).
                 seq (summarize activation_results (0, 0)) (\<lambda>(total_act, total_avail).
                 seq (capture_evidence w ts) (\<lambda>(screenshot, html).
                 ret \<lparr>successful = succ, failed = fl, error = None,
                      total_activated = Some total_act,
                      total_available = Some total_avail,
                      screenshot_path = Some screenshot,
                      html_path = Some html\<rparr>))) st tr2 = (Inr r, tr0')"
      by (auto elim: seq_InrE)
    obtain ar s f where st: "st = (ar, s, f)" by (cases st)
    from r2 st obtain tot tr3 where
      sm: "summarize ar (0, 0) tr2 = (Inr tot, tr3)" and
      r3: "(\<lambda>(total_act, total_avail).
                 seq (capture_evidence w ts) (\<lambda>(screenshot, html).
                 ret \<lparr>successful = s, failed = f, error = None,
                      total_activated = Some total_act,
                      total_available = Some total_avail,
                      screenshot_path = Some screenshot,
                      html_path = Some html\<rparr>)) tot tr3 = (Inr r, tr0')"
      by (auto elim: seq_InrE)
    obtain ta tv where tot: "tot = (ta, tv)" by (cases tot)
    from r3 tot obtain paths tr4 where
      r4: "(\<lambda>(screenshot, html).
                 ret \<lparr>successful = s, failed = f, error = None,
                      total_activated = Some ta,
                      total_available = Some tv,
                      screenshot_path = Some screenshot,
                      html_path = Some html\<rparr>) paths tr4 = (Inr r, tr0')"
      by (auto elim: seq_InrE)
    obtain sp hp where paths: "paths = (sp, hp)" by (cases paths)
    from r4 paths have r: "r = \<lparr>successful = s, failed = f, error = None,
                      total_activated = Some ta, total_available = Some tv,
                      screenshot_path = Some sp, html_path = Some hp\<rparr>"
      by (simp add: ret_def)
    from r have "successful r = s" "failed r = f" "error r = None"
      "total_activated r = Some ta" "total_available r = Some tv" by simp_all
    with pm st sm tot show ?thesis by (intro disjI2 exI conjI) auto
  qed
qed

lemma run_partition:
  assumes "run jl w ts a tr = (Inr r, tr')"
  shows "\<exists>outs. successful r = filter is_success outs
              \<and> failed r = filter (\<lambda>out. \<not> is_success out) outs
              \<and> (error r = None \<longrightarrow> list_all2 outcome_for (merchants a) outs)"
  using run_cases[OF assms]
proof (elim disjE exE conjE)
  assume "successful r = []" "failed r = []" "error r \<noteq> None"
  then show ?thesis by (intro exI[of _ "[]"]) auto
next
  fix ar tr1 tr2 ta tv tr3 tr4
  assume "process_merchants jl w a (merchants a) ([], [], []) tr1
            = (Inr (ar, successful r, failed r), tr2)"
  from process_merchants_partition[OF this] show ?thesis by auto
qed

subsection \<open>The example run\<close>

lemma ex_login:
  "login ex_world a tr =
     (Inr None, tr @ tl start_calls @ cookie_calls @ form_calls a
                   @ [Call (ExecuteScript VerifyScript)])"
  by (simp add: login_def monad_defs ex_world_def start_calls_def cookie_calls_def form_calls_def)

lemma ex_activate_A:
  "Call (ExecuteScript ReadResultsScript) \<notin> set tr \<Longrightarrow>
   activate_coupons_for_partner ex_jl ex_world ex_activator (PStr ''A'') (PStr ''101'') tr =
     (Inr ex_outcome_A,
      tr @ [Call (GoTo (CouponsUrl (PStr ''101''))), Call (ExecuteScript ActivationScript),
            Call (ExecuteScript StoreResultsScript), Call (ExecuteScript ReadResultsScript)])"
  by (simp add: activate_coupons_for_partner_def send_activation_def monad_defs ex_world_def
      ex_activator_def process_results_def parse_results_def json_loads_def ex_jl_def ebind_def
      outcome_of_results_def py_get_def dict_get_def success_outcome_def ex_outcome_A_def)

lemma ex_activate_B:
  "Call (ExecuteScript ReadResultsScript) \<in> set tr \<Longrightarrow>
   activate_coupons_for_partner ex_jl ex_world ex_activator (PStr ''B'') (PStr ''202'') tr =
     (Inr ex_outcome_B,
      tr @ [Call (GoTo (CouponsUrl (PStr ''202''))), Call (ExecuteScript ActivationScript),
            Call (ExecuteScript StoreResultsScript), Call (ExecuteScript ReadResultsScript),
            Log ERROR ''Activation failed''])"
  by (simp add: activate_coupons_for_partner_def send_activation_def monad_defs ex_world_def
      ex_activator_def process_results_def parse_results_def json_loads_def ex_jl_def ebind_def
      outcome_of_results_def py_get_def dict_get_def failure_outcome_def ex_outcome_B_def)

lemma ex_process:
  assumes nr: "Call (ExecuteScript ReadResultsScript) \<notin> set tr"
  shows "fst (process_merchants ex_jl ex_world ex_activator ex_merchants ([], [], []) tr) =
     Inr ([ex_outcome_A, ex_outcome_B], [ex_outcome_A], [ex_outcome_B])"
proof -
  have sA: "truthy (dict_get ex_outcome_A ''success'' (PBool False))"
    and sB: "\<not> truthy (dict_get ex_outcome_B ''success'' (PBool False))"
    by (simp_all add: ex_outcome_A_def ex_outcome_B_def dict_get_def)
  show ?thesis
    by (simp add: ex_merchants_def dict_get_def[of "[_, _]"] Let_def seq_def
        ex_activate_A[OF nr] ex_activate_B sA sB ret_def)
qed

lemma ex_summarize:
  "fst (summarize [ex_outcome_A, ex_outcome_B] (0, 0) tr) = Inr (3, 5)"
  by (simp add: ex_outcome_A_def ex_outcome_B_def dict_get_def py_add_def monad_defs)

lemma ex_capture:
  "capture_evidence ex_world ''ts'' tr =
     (Inr (''payback_coupons_ts.png'', ''payback_coupons_ts.html''),
      tr @ [Call (GoTo (CouponsUrl (PStr []))), Call (GetScreenshot ''payback_coupons_ts.png''),
            Call PageSource, Call (WriteFile ''payback_coupons_ts.html'')])"
  by (simp add: capture_evidence_def monad_defs ex_world_def Let_def)

lemma ex_run: "fst (run ex_jl ex_world ''ts'' ex_activator []) = Inr ex_result"
proof -
  have m: "merchants ex_activator = ex_merchants" "ex_merchants \<noteq> []"
    by (simp_all add: ex_activator_def ex_merchants_def)
  let ?tr = "start_calls @ cookie_calls @ form_calls ex_activator
               @ [Call (ExecuteScript VerifyScript)]"
  have nr: "Call (ExecuteScript ReadResultsScript) \<notin> set ?tr"
    by (simp add: start_calls_def cookie_calls_def form_calls_def)
  have l: "login ex_world ex_activator [Call BrowserOpen] = (Inr None, ?tr)"
    by (simp add: ex_login start_calls_def)
  obtain tr1 where p: "process_merchants ex_jl ex_world ex_activator ex_merchants ([], [], []) ?tr
      = (Inr ([ex_outcome_A, ex_outcome_B], [ex_outcome_A], [ex_outcome_B]), tr1)"
    using ex_process[OF nr] by (metis prod.collapse)
  obtain tr2 where s: "summarize [ex_outcome_A, ex_outcome_B] (0, 0) tr1 = (Inr (3, 5), tr2)"
    using ex_summarize[of tr1] by (metis prod.collapse)
  show ?thesis
    by (simp add: run_def m with_browser_def do_call_def ex_world_def[of "[]"] seq_def l p s
        ex_capture ret_def ex_result_def del: summarize.simps process_merchants.simps)
qed

lemma ex_nameless_run:
  "fst (run ex_jl ex_world ''ts'' ex_nameless []) = Inr ex_nameless_result"
proof -
  have m: "merchants ex_nameless = [[(''name'', PStr ''C'')]]"
    by (simp add: ex_nameless_def)
  let ?tr = "start_calls @ cookie_calls @ form_calls ex_nameless
               @ [Call (ExecuteScript VerifyScript)]"
  have l: "login ex_world ex_nameless [Call BrowserOpen] = (Inr None, ?tr)"
    by (simp add: ex_login start_calls_def)
  have p: "process_merchants ex_jl ex_world ex_nameless [[(''name'', PStr ''C'')]] ([], [], []) ?tr
      = (Inr ([], [], [no_partner_outcome (PStr ''C'')]),
         ?tr @ [Log WARNING ''Skipping: No partner_id specified''])"
    by (simp add: dict_get_def Let_def seq_def log_def ret_def)
  show ?thesis
    by (simp add: run_def m with_browser_def do_call_def ex_world_def[of "[]"] seq_def l p
        ex_capture ret_def ex_nameless_result_def del: process_merchants.simps)
qed


section \<open>The aggregate of a run\<close>

text \<open>
  Claim C2. Whenever \<^verbatim>\<open>run\<close> returns a result, its \<^verbatim>\<open>total_activated\<close> is the sum
  of the activated counts of the outcomes in the successful list, and there is a list of
  outcomes, one for each merchant in configuration order when the run got as far as the
  merchants, such that the successful list holds exactly its outcomes with a true success
  flag and the failed list exactly the others, both in order. So every outcome is in
  exactly one of the two lists. The two early returns have no key
  \<^verbatim>\<open>total_activated\<close>; both of their lists are empty.
\<close>

theorem run_summary_invariant:
  assumes "run jl w ts a tr = (Inr r, tr')"
  shows "(case total_activated r of
            Some t \<Rightarrow> t = sum_list (map activated_count (successful r))
          | None \<Rightarrow> successful r = [] \<and> failed r = [])
       \<and> (\<exists>outs. successful r = filter is_success outs
                \<and> failed r = filter (\<lambda>out. \<not> is_success out) outs
                \<and> (error r = None \<longrightarrow> list_all2 outcome_for (merchants a) outs))"
proof
  from run_cases[OF assms]
  show "case total_activated r of
            Some t \<Rightarrow> t = sum_list (map activated_count (successful r))
          | None \<Rightarrow> successful r = [] \<and> failed r = []"
  proof (elim disjE exE conjE)
    assume "successful r = []" "failed r = []" "total_activated r = None"
    then show ?thesis by simp
  next
    fix ar tr1 tr2 ta tv tr3 tr4
    assume pm: "process_merchants jl w a (merchants a) ([], [], []) tr1
            = (Inr (ar, successful r, failed r), tr2)"
      and sm: "summarize ar (0, 0) tr3 = (Inr (ta, tv), tr4)"
      and ta: "total_activated r = Some ta"
    have "filter is_success ar = successful r"
      using process_merchants_results[OF pm] by simp
    with summarize_totals[OF sm] ta show ?thesis
      by (simp add: activated_count_def[abs_def])
  qed
  show "\<exists>outs. successful r = filter is_success outs
                \<and> failed r = filter (\<lambda>out. \<not> is_success out) outs
                \<and> (error r = None \<longrightarrow> list_all2 outcome_for (merchants a) outs)"
    by (rule run_partition[OF assms])
qed

theorem run_summary_invariant_witness:
  "(case total_activated ex_result of
      Some t \<Rightarrow> t = sum_list (map activated_count (successful ex_result))
    | None \<Rightarrow> successful ex_result = [] \<and> failed ex_result = [])
   \<and> (\<exists>outs. successful ex_result = filter is_success outs
          \<and> failed ex_result = filter (\<lambda>out. \<not> is_success out) outs
          \<and> (error ex_result = None \<longrightarrow> list_all2 outcome_for (merchants ex_activator) outs))"
proof -
  obtain tr' where "run ex_jl ex_world ''ts'' ex_activator [] = (Inr ex_result, tr')"
    using ex_run by (metis prod.collapse)
  then show ?thesis by (rule run_summary_invariant)
qed

text \<open>
  Claim C6, as the code has it. A merchant without a partner id gets an outcome of its
  own in the failed list, so the two lists together hold one outcome for every
  configured merchant, with or without a partner id, when the run got as far as the
  merchants; after an early return both lists are empty.
\<close>

theorem outcome_count:
  assumes "run jl w ts a tr = (Inr r, tr')"
  shows "length (successful r) + length (failed r)
           = (if error r = None then length (merchants a) else 0)"
  using run_cases[OF assms]
proof (elim disjE exE conjE)
  assume "successful r = []" "failed r = []" "error r \<noteq> None"
  then show ?thesis by auto
next
  fix ar tr1 tr2 ta tv tr3 tr4
  assume pm: "process_merchants jl w a (merchants a) ([], [], []) tr1
            = (Inr (ar, successful r, failed r), tr2)" and e: "error r = None"
  from process_merchants_partition[OF pm] obtain outs where
    o: "list_all2 outcome_for (merchants a) outs" "successful r = filter is_success outs"
       "failed r = filter (\<lambda>out. \<not> is_success out) outs" by auto
  have "length (successful r) + length (failed r) = length outs"
    unfolding o(2,3) by (rule sum_length_filter_compl)
  with o(1) e show ?thesis by (simp add: list_all2_lengthD)
qed

theorem outcome_count_witness:
  "length (successful ex_result) + length (failed ex_result)
     = (if error ex_result = None then length (merchants ex_activator) else 0)"
proof -
  obtain tr' where "run ex_jl ex_world ''ts'' ex_activator [] = (Inr ex_result, tr')"
    using ex_run by (metis prod.collapse)
  then show ?thesis by (rule outcome_count)
qed

text \<open>
  Claim C6 as stated counts only the merchants that have a partner id. With the single
  merchant \<open>C\<close>, which has none, the run returns one failed outcome, while no merchant
  has a partner id.
\<close>

theorem outcome_count_counterexample:
  "fst (run ex_jl ex_world ''ts'' ex_nameless []) = Inr ex_nameless_result
   \<and> length (successful ex_nameless_result) + length (failed ex_nameless_result) = 1
   \<and> length (filter has_partner_id (merchants ex_nameless)) = 0"
proof (intro conjI)
  show "fst (run ex_jl ex_world ''ts'' ex_nameless []) = Inr ex_nameless_result"
    by (rule ex_nameless_run)
  show "length (successful ex_nameless_result) + length (failed ex_nameless_result) = 1"
    by (simp add: ex_nameless_result_def)
  show "length (filter has_partner_id (merchants ex_nameless)) = 0"
    by (simp add: ex_nameless_def has_partner_id_def dict_get_def)
qed

section \<open>Merchants without a partner id\<close>

lemma outcome_fields:
  "dict_get (no_partner_outcome n) ''success'' PNone = PBool False"
  "dict_get (no_partner_outcome n) ''error'' PNone = PStr ''No partner_id specified''"
  "dict_get (failure_outcome n p err) ''success'' PNone = PBool False"
  "dict_get (failure_outcome n p err) ''error'' PNone = err"
  by (simp_all add: no_partner_outcome_def failure_outcome_def dict_get_def)

text \<open>
  Claim C5. A merchant whose \<^verbatim>\<open>partner_id\<close> is missing or the empty string is
  passed over by the merchant loop: the loop goes on with the remaining merchants, the
  failed list has gained the outcome with success false and the error
  \<^verbatim>\<open>No partner_id specified\<close>, and the trace has gained the warning and nothing
  else, so no navigation and no other call was made for this merchant.
\<close>

theorem no_partner_id_rejected:
  assumes "map_of merchant ''partner_id'' = None \<or> map_of merchant ''partner_id'' = Some (PStr [])"
    and "out = no_partner_outcome (dict_get merchant ''name'' (PStr ''Unknown''))"
  shows "process_merchants jl w a (merchant # rest) (ar, succ, fl) tr =
           process_merchants jl w a rest (ar, succ, fl @ [out])
             (tr @ [Log WARNING ''Skipping: No partner_id specified''])
       \<and> dict_get out ''success'' PNone = PBool False
       \<and> dict_get out ''error'' PNone = PStr ''No partner_id specified''"
proof -
  from assms(1) have "\<not> truthy (dict_get merchant ''partner_id'' (PStr []))"
    by (auto simp: dict_get_def)
  then show ?thesis using assms(2) by (simp add: seq_def log_def Let_def outcome_fields)
qed

theorem no_partner_id_rejected_witness:
  "process_merchants ex_jl ex_world ex_nameless [[(''name'', PStr ''C'')]] ([], [], []) [] =
     (Inr ([], [], [no_partner_outcome (PStr ''C'')]),
      [Log WARNING ''Skipping: No partner_id specified''])"
  using no_partner_id_rejected[of "[(''name'', PStr ''C'')]" "no_partner_outcome (PStr ''C'')"
      ex_jl ex_world ex_nameless "[]" "[]" "[]" "[]" "[]"]
  by (simp add: dict_get_def ret_def)


section \<open>The exit code\<close>

lemma notify_returns: "\<exists>tr'. notify w opts r tr = (Inr (should_notify opts r), tr')"
  by (auto simp: notify_def monad_defs split: prod.splits sum.splits)

lemma exit_code_of_value:
  "fst (exit_code_of r tr) = Inr (if failed r \<noteq> [] \<and> successful r = [] then 1 else 0)"
  by (simp add: exit_code_of_def monad_defs)

lemma main_code:
  assumes "\<not> absent (str_or (arg_username argv) (PAYBACK_USERNAME env))"
    and "\<not> absent (str_or (arg_password argv) (PAYBACK_PASSWORD env))"
  shows "fst (main jl w ts cfg env argv) =
     (case fst (main_async jl w ts cfg env
                  (case str_or (arg_username argv) (PAYBACK_USERNAME env) of Some u \<Rightarrow> u | None \<Rightarrow> [])
                  (case str_or (arg_password argv) (PAYBACK_PASSWORD env) of Some p \<Rightarrow> p | None \<Rightarrow> [])
                  (arg_headless argv) []) of
        Inl e \<Rightarrow> 1
      | Inr r \<Rightarrow> if failed r \<noteq> [] \<and> successful r = [] then 1 else 0)"
proof -
  let ?m = "main_async jl w ts cfg env
                  (case str_or (arg_username argv) (PAYBACK_USERNAME env) of Some u \<Rightarrow> u | None \<Rightarrow> [])
                  (case str_or (arg_password argv) (PAYBACK_PASSWORD env) of Some p \<Rightarrow> p | None \<Rightarrow> [])
                  (arg_headless argv) []"
  obtain res tr1 where m: "?m = (res, tr1)" by (cases ?m)
  show ?thesis
  proof (cases res)
    case (Inl e)
    with m assms show ?thesis by (simp add: main_def Let_def seq_def)
  next
    case (Inr r)
    obtain tr2 where n: "notify w (cfg_options cfg) r tr1 = (Inr (should_notify (cfg_options cfg) r), tr2)"
      using notify_returns by blast
    have e1: "\<And>tr. \<exists>tr'. exit_code_of r tr
                = (Inr (if failed r \<noteq> [] \<and> successful r = [] then 1 else 0), tr')"
      using exit_code_of_value[of r] by (metis prod.collapse)
    show ?thesis
    proof (cases "arg_no_notify argv")
      case True
      obtain tr3 where "exit_code_of r tr1
          = (Inr (if failed r \<noteq> [] \<and> successful r = [] then 1 else 0), tr3)"
        using e1 by blast
      with True m Inr assms show ?thesis
        by (simp add: main_def Let_def seq_def ret_def)
    next
      case False
      obtain tr3 where "exit_code_of r tr2
          = (Inr (if failed r \<noteq> [] \<and> successful r = [] then 1 else 0), tr3)"
        using e1 by blast
      with False m Inr assms n show ?thesis
        by (simp add: main_def Let_def seq_def)
    qed
  qed
qed

text \<open>
  Claim C1. With the credentials taken from the arguments or the environment, and the
  outcome of the run that \<^verbatim>\<open>main\<close> starts, the exit code is 1 exactly when a
  credential is absent, or the run ended in an exception, or the run returned a non-empty
  failed list with an empty successful list; it is 0 exactly when both credentials are
  there and the run returned with an empty failed list or with both lists non-empty.
\<close>

theorem main_exit_code:
  assumes "user = str_or (arg_username argv) (PAYBACK_USERNAME env)"
    and "pw = str_or (arg_password argv) (PAYBACK_PASSWORD env)"
    and "outcome = fst (main_async jl w ts cfg env
                          (case user of Some u \<Rightarrow> u | None \<Rightarrow> [])
                          (case pw of Some p \<Rightarrow> p | None \<Rightarrow> [])
                          (arg_headless argv) [])"
    and "code = fst (main jl w ts cfg env argv)"
  shows "(code = 1 \<longleftrightarrow>
            absent user \<or> absent pw \<or> (\<exists>e. outcome = Inl e)
            \<or> (\<exists>r. outcome = Inr r \<and> failed r \<noteq> [] \<and> successful r = []))
       \<and> (code = 0 \<longleftrightarrow>
            \<not> absent user \<and> \<not> absent pw
            \<and> (\<exists>r. outcome = Inr r
                   \<and> (failed r = [] \<or> (failed r \<noteq> [] \<and> successful r \<noteq> []))))"
proof (cases "absent user \<or> absent pw")
  case True
  then have "code = 1" using assms(1,2,4) by (auto simp: main_def Let_def)
  with True show ?thesis by auto
next
  case False
  then have c: "code = (case outcome of Inl e \<Rightarrow> 1
                        | Inr r \<Rightarrow> if failed r \<noteq> [] \<and> successful r = [] then 1 else 0)"
    using assms main_code[of argv env jl w ts cfg] by simp
  show ?thesis
  proof (cases outcome)
    case (Inl e)
    with c False show ?thesis by simp
  next
    case (Inr r)
    with c False show ?thesis by auto
  qed
qed

lemma ex_main_async:
  "main_async ex_jl ex_world ''ts'' ex_config ex_environ ''user'' ''secret'' True
     = run ex_jl ex_world ''ts'' ex_activator"
  by (simp add: main_async_def ex_config_def ex_environ_def ex_activator_def)

text \<open>
  The mixed scenario: merchant \<open>A\<close> reports 3 of 5 coupons activated, merchant \<open>B\<close>
  reports that the coupon center was not found. The exit code is 0, 3 coupons were
  activated in total and the failed list has one entry.
\<close>

theorem main_exit_code_witness:
  "fst (main ex_jl ex_world ''ts'' ex_config ex_environ ex_args) = 0
   \<and> total_activated ex_result = Some 3 \<and> length (failed ex_result) = 1"
proof -
  have u: "str_or (arg_username ex_args) (PAYBACK_USERNAME ex_environ) = Some ''user''"
    and p: "str_or (arg_password ex_args) (PAYBACK_PASSWORD ex_environ) = Some ''secret''"
    by (simp_all add: str_or_def ex_args_def ex_environ_def)
  have h: "arg_headless ex_args = True" by (simp add: ex_args_def)
  have o: "Inr ex_result = fst (main_async ex_jl ex_world ''ts'' ex_config ex_environ
                          (case Some ''user'' of Some u \<Rightarrow> u | None \<Rightarrow> [])
                          (case Some ''secret'' of Some p \<Rightarrow> p | None \<Rightarrow> [])
                          (arg_headless ex_args) [])"
    by (simp add: h ex_main_async ex_run)
  from main_exit_code[OF u[symmetric] p[symmetric] o refl]
  have "fst (main ex_jl ex_world ''ts'' ex_config ex_environ ex_args) = 0"
    by (simp add: absent_def ex_result_def)
  then show ?thesis by (simp add: ex_result_def)
qed




section \<open>The two shapes of the retrieved value\<close>

text \<open>
  Claim C7. A bare string and an envelope dictionary that holds the same string under
  \<^verbatim>\<open>result/result/value\<close> are normalized to the same parsed object, namely what
  \<^verbatim>\<open>json.loads\<close> makes of the string (or to the same parse error). The envelope may
  hold further keys at every level. The outcome built for the merchant is then the same
  too, as long as the string is not empty: the guard \<^verbatim>\<open>if results_json:\<close> sends the
  empty bare string, which is no JSON text, to the branch of the missing value.
\<close>

theorem envelope_normalized:
  assumes "map_of d ''result'' = Some (PDict d1)"
    and "map_of d1 ''result'' = Some (PDict d2)"
    and "map_of d2 ''value'' = Some (PStr s)"
  shows "parse_results jl (PDict d) = json_loads jl (PStr s)
       \<and> parse_results jl (PStr s) = json_loads jl (PStr s)
       \<and> (s \<noteq> [] \<longrightarrow> process_results jl n p (PDict d) = process_results jl n p (PStr s))"
proof -
  have a: "parse_results jl (PDict d) = json_loads jl (PStr s)"
    using assms by (simp add: parse_results_def ebind_def py_get_def dict_get_def)
  have b: "parse_results jl (PStr s) = json_loads jl (PStr s)"
    by (simp add: parse_results_def)
  have "d \<noteq> []" using assms(1) by auto
  then have "s \<noteq> [] \<longrightarrow> process_results jl n p (PDict d) = process_results jl n p (PStr s)"
    using a b by (simp add: process_results_def)
  with a b show ?thesis by simp
qed

theorem envelope_normalized_witness:
  "parse_results ex_jl
     (PDict [(''id'', PInt 7),
             (''result'', PDict [(''result'', PDict [(''type'', PStr ''string''),
                                                     (''value'', PStr ''results-A'')])])])
     = Inr (PDict [(''success'', PBool True), (''activated'', PInt 3), (''total'', PInt 5)])
   \<and> parse_results ex_jl (PStr ''results-A'')
     = Inr (PDict [(''success'', PBool True), (''activated'', PInt 3), (''total'', PInt 5)])"
  using envelope_normalized[of
      "[(''id'', PInt 7),
        (''result'', PDict [(''result'', PDict [(''type'', PStr ''string''),
                                                (''value'', PStr ''results-A'')])])]"
      "[(''result'', PDict [(''type'', PStr ''string''), (''value'', PStr ''results-A'')])]"
      "[(''type'', PStr ''string''), (''value'', PStr ''results-A'')]"
      "''results-A''" ex_jl]
  by (simp add: json_loads_def ex_jl_def)

section \<open>A missing or malformed result\<close>

text \<open>
  What \<^verbatim>\<open>activate_coupons_for_partner\<close> makes of a retrieved value that holds no
  usable result, stated on the value itself and on what \<^verbatim>\<open>json.loads\<close> does
  with the text in it.
\<close>

lemma process_missing:
  "\<not> truthy payload \<Longrightarrow>
   process_results jl n p payload =
     (failure_outcome n p (PStr ''Failed to get activation results''),
      [Log ERROR ''Failed to get activation results''])"
  by (simp add: process_results_def)

lemma process_malformed_bare:
  "s \<noteq> [] \<Longrightarrow> jl s = Inl m \<Longrightarrow>
   process_results jl n p (PStr s) =
     (failure_outcome n p (PStr m),
      [Log ERROR (''Error processing activation results: '' @ m)])"
  by (simp add: process_results_def parse_results_def json_loads_def ebind_def)

lemma process_malformed_envelope:
  assumes "map_of d ''result'' = Some (PDict d1)"
    and "map_of d1 ''result'' = Some (PDict d2)"
    and "map_of d2 ''value'' = Some (PStr s)"
    and "jl s = Inl m"
  shows "process_results jl n p (PDict d) =
     (failure_outcome n p (PStr m),
      [Log ERROR (''Error processing activation results: '' @ m)])"
proof -
  have "d \<noteq> []" using assms(1) by auto
  then show ?thesis using assms
    by (simp add: process_results_def parse_results_def json_loads_def ebind_def py_get_def
        dict_get_def)
qed

lemma process_envelope_without_value:
  assumes "map_of d ''result'' = Some (PDict d1)"
    and "map_of d1 ''result'' = Some (PDict d2)"
    and "map_of d2 ''value'' = None"
    and "jl ''{}'' = Inr (PDict [])"
  shows "process_results jl n p (PDict d) =
     (failure_outcome n p (PStr ''Unknown error''), [Log ERROR ''Activation failed''])"
proof -
  have "d \<noteq> []" using assms(1) by auto
  then show ?thesis using assms
    by (simp add: process_results_def parse_results_def json_loads_def ebind_def py_get_def
        dict_get_def outcome_of_results_def)
qed

text \<open>
  Claim C4, as the code has it. Take a merchant with a partner id, at a point of the
  merchant loop where the calls that send the activation succeed and the read of the
  stored result returns \<open>payload\<close>. The outcome of the merchant has success false and
  the error
  \<^item> \<^verbatim>\<open>Failed to get activation results\<close> when the payload is missing (falsy);
  \<^item> the text of the parse error when the payload is a non-empty string that
    \<^verbatim>\<open>json.loads\<close> rejects, or an envelope with such a string under
    \<^verbatim>\<open>result/result/value\<close>;
  \<^item> \<^verbatim>\<open>Unknown error\<close> when the payload is an envelope with nothing under
    \<^verbatim>\<open>value\<close>: the default text of an empty object is parsed, and the empty
    object has neither a success flag nor an error text.

  In each case the outcome is appended to the failed list and the loop goes on with the
  remaining merchants.
\<close>

theorem bad_payload_isolated:
  assumes "n = dict_get merchant ''name'' (PStr ''Unknown'')"
    and "p = dict_get merchant ''partner_id'' (PStr [])"
    and "truthy p"
    and "send_activation w a n p tr = (Inr v, tr0)"
    and "w tr0 (ExecuteScript ReadResultsScript) = Inr payload"
    and "(\<not> truthy payload \<and> err = ''Failed to get activation results'')
         \<or> (\<exists>s. payload = PStr s \<and> s \<noteq> [] \<and> jl s = Inl err)
         \<or> (\<exists>d d1 d2 s. payload = PDict d
                \<and> map_of d ''result'' = Some (PDict d1)
                \<and> map_of d1 ''result'' = Some (PDict d2)
                \<and> map_of d2 ''value'' = Some (PStr s) \<and> jl s = Inl err)
         \<or> (\<exists>d d1 d2. payload = PDict d
                \<and> map_of d ''result'' = Some (PDict d1)
                \<and> map_of d1 ''result'' = Some (PDict d2)
                \<and> map_of d2 ''value'' = None \<and> jl ''{}'' = Inr (PDict [])
                \<and> err = ''Unknown error'')"
    and "out = failure_outcome n p (PStr err)"
  shows "(\<exists>logs. process_merchants jl w a (merchant # rest) (ar, succ, fl) tr =
                  process_merchants jl w a rest (ar @ [out], succ, fl @ [out])
                    (tr0 @ Call (ExecuteScript ReadResultsScript) # logs))
       \<and> dict_get out ''success'' PNone = PBool False
       \<and> dict_get out ''error'' PNone = PStr err"
proof -
  from assms(6) have "\<exists>logs. process_results jl n p payload = (failure_outcome n p (PStr err), logs)"
  proof (elim disjE exE conjE)
    assume "\<not> truthy payload" "err = ''Failed to get activation results''"
    then show ?thesis by (simp add: process_missing)
  next
    fix s assume "payload = PStr s" "s \<noteq> []" "jl s = Inl err"
    then show ?thesis by (simp add: process_malformed_bare)
  next
    fix d d1 d2 s
    assume "payload = PDict d" "map_of d ''result'' = Some (PDict d1)"
      "map_of d1 ''result'' = Some (PDict d2)" "map_of d2 ''value'' = Some (PStr s)"
      "jl s = Inl err"
    then show ?thesis by (simp add: process_malformed_envelope)
  next
    fix d d1 d2
    assume "payload = PDict d" "map_of d ''result'' = Some (PDict d1)"
      "map_of d1 ''result'' = Some (PDict d2)" "map_of d2 ''value'' = None"
      "jl ''{}'' = Inr (PDict [])" "err = ''Unknown error''"
    then show ?thesis by (simp add: process_envelope_without_value)
  qed
  with assms(7) obtain logs where pr: "process_results jl n p payload = (out, logs)"
    by auto
  have act: "activate_coupons_for_partner jl w a n p tr
               = (Inr out, tr0 @ Call (ExecuteScript ReadResultsScript) # logs)"
    using assms(4,5) pr by (simp add: activate_coupons_for_partner_def seq_def do_call_def)
  have ns: "\<not> truthy (dict_get out ''success'' (PBool False))"
    using assms(7) by (simp add: failure_outcome_def dict_get_def)
  have "process_merchants jl w a (merchant # rest) (ar, succ, fl) tr =
          process_merchants jl w a rest (ar @ [out], succ, fl @ [out])
            (tr0 @ Call (ExecuteScript ReadResultsScript) # logs)"
    using assms(1,2,3) act ns by (simp add: Let_def seq_def)
  then show ?thesis using assms(7) by (auto simp: outcome_fields)
qed

text \<open>
  The page hands out markup instead of JSON text: the merchant gets the failed outcome
  with the message of the parser, and the loop ends regularly.
\<close>

theorem bad_payload_isolated_witness:
  "\<exists>logs. process_merchants ex_jl (answering ex_malformed_answer) ex_activator
             [[(''name'', PStr ''A''), (''partner_id'', PStr ''101'')]] ([], [], []) [] =
           (Inr ([failure_outcome (PStr ''A'') (PStr ''101'')
                    (PStr ''Expecting value: line 1 column 1 (char 0)'')],
                 [],
                 [failure_outcome (PStr ''A'') (PStr ''101'')
                    (PStr ''Expecting value: line 1 column 1 (char 0)'')]),
            [Call (GoTo (CouponsUrl (PStr ''101''))), Call (ExecuteScript ActivationScript),
             Call (ExecuteScript StoreResultsScript)]
            @ Call (ExecuteScript ReadResultsScript) # logs)"
proof -
  have s: "send_activation (answering ex_malformed_answer) ex_activator (PStr ''A'') (PStr ''101'') []
             = (Inr PNone, [Call (GoTo (CouponsUrl (PStr ''101''))),
                            Call (ExecuteScript ActivationScript),
                            Call (ExecuteScript StoreResultsScript)])"
    by (simp add: send_activation_def monad_defs answering_def ex_malformed_answer_def
        ex_activator_def)
  have r: "answering ex_malformed_answer
             [Call (GoTo (CouponsUrl (PStr ''101''))), Call (ExecuteScript ActivationScript),
              Call (ExecuteScript StoreResultsScript)]
             (ExecuteScript ReadResultsScript) = Inr (PStr ''<html>not json</html>'')"
    by (simp add: answering_def ex_malformed_answer_def)
  have j: "ex_jl ''<html>not json</html>'' = Inl ''Expecting value: line 1 column 1 (char 0)''"
    by (simp add: ex_jl_def)
  have b: "(\<not> truthy (PStr ''<html>not json</html>'')
            \<and> ''Expecting value: line 1 column 1 (char 0)'' = ''Failed to get activation results'')
         \<or> (\<exists>s. PStr ''<html>not json</html>'' = PStr s \<and> s \<noteq> []
                \<and> ex_jl s = Inl ''Expecting value: line 1 column 1 (char 0)'')
         \<or> (\<exists>d d1 d2 s. PStr ''<html>not json</html>'' = PDict d
                \<and> map_of d ''result'' = Some (PDict d1)
                \<and> map_of d1 ''result'' = Some (PDict d2)
                \<and> map_of d2 ''value'' = Some (PStr s)
                \<and> ex_jl s = Inl ''Expecting value: line 1 column 1 (char 0)'')
         \<or> (\<exists>d d1 d2. PStr ''<html>not json</html>'' = PDict d
                \<and> map_of d ''result'' = Some (PDict d1)
                \<and> map_of d1 ''result'' = Some (PDict d2)
                \<and> map_of d2 ''value'' = None \<and> ex_jl ''{}'' = Inr (PDict [])
                \<and> ''Expecting value: line 1 column 1 (char 0)'' = ''Unknown error'')"
    using j by simp
  have n: "PStr ''A'' = dict_get [(''name'', PStr ''A''), (''partner_id'', PStr ''101'')] ''name'' (PStr ''Unknown'')"
    and p: "PStr ''101'' = dict_get [(''name'', PStr ''A''), (''partner_id'', PStr ''101'')] ''partner_id'' (PStr [])"
    by (simp_all add: dict_get_def)
  have t: "truthy (PStr ''101'')" by simp
  from bad_payload_isolated[OF n p t s r b refl, of "[]" "[]" "[]" "[]"]
  show ?thesis by (simp add: ret_def)
qed

text \<open>
  Claim C4 as stated gives a missing payload the error
  \<^verbatim>\<open>Failed to get activation results\<close>. The envelope of a page variable that was
  never set holds no value, so the payload is missing, and it is a non-empty dictionary:
  the outcome carries \<^verbatim>\<open>Unknown error\<close>. Only a retrieved value that is itself
  falsy gets the error of the claim.
\<close>

theorem bad_payload_counterexample:
  "truthy ex_undefined_envelope
   \<and> fst (process_results ex_jl (PStr ''A'') (PStr ''101'') ex_undefined_envelope)
       = failure_outcome (PStr ''A'') (PStr ''101'') (PStr ''Unknown error'')
   \<and> fst (process_results ex_jl (PStr ''A'') (PStr ''101'') PNone)
       = failure_outcome (PStr ''A'') (PStr ''101'') (PStr ''Failed to get activation results'')"
  by (simp add: ex_undefined_envelope_def process_results_def parse_results_def json_loads_def
      ebind_def py_get_def dict_get_def outcome_of_results_def ex_jl_def)


section \<open>Failures during authentication\<close>














section \<open>The evidence snapshot\<close>

text \<open>
  Two worlds that answer alike every call that the capture of the evidence does not make
  lead to the same login and the same merchant loop.
\<close>

lemma agree_do_call: "(\<And>tr. w tr c = w' tr c) \<Longrightarrow> do_call w c = do_call w' c"
  by (rule ext) (simp add: do_call_def)

lemma agree_login:
  assumes "\<And>tr c. \<not> evidence_call c \<Longrightarrow> w tr c = w' tr c"
  shows "login w a = login w' a"
proof -
  have "\<And>c. \<not> evidence_call c \<Longrightarrow> do_call w c = do_call w' c"
    using assms by (intro agree_do_call) simp
  then show ?thesis by (simp add: login_def exec_def)
qed

lemma agree_activate:
  assumes "\<And>tr c. \<not> evidence_call c \<Longrightarrow> w tr c = w' tr c"
  shows "activate_coupons_for_partner jl w a n p = activate_coupons_for_partner jl w' a n p"
proof -
  have "\<And>c. \<not> evidence_call c \<Longrightarrow> do_call w c = do_call w' c"
    using assms by (intro agree_do_call) simp
  then show ?thesis by (simp add: activate_coupons_for_partner_def send_activation_def)
qed

lemma agree_process:
  assumes "\<And>tr c. \<not> evidence_call c \<Longrightarrow> w tr c = w' tr c"
  shows "process_merchants jl w a ms st tr = process_merchants jl w' a ms st tr"
proof (induction ms arbitrary: st tr)
  case Nil
  then show ?case by simp
next
  case (Cons m ms)
  obtain ar s f where st: "st = (ar, s, f)" by (cases st)
  show ?case
    unfolding st
    by (simp add: Let_def agree_activate[OF assms] seq_def Cons.IH
        split: prod.splits sum.splits)
qed

lemma fst_with_browser:
  "fst (with_browser w body tr) =
     (case w tr BrowserOpen of Inl e \<Rightarrow> Inl e | Inr v \<Rightarrow> fst (body (tr @ [Call BrowserOpen])))"
  by (simp add: with_browser_def do_call_def split: sum.splits prod.splits)

lemma fst_seq_cong:
  "(\<And>x t. fst (f x t) = fst (g x t)) \<Longrightarrow> fst (seq m f tr) = fst (seq m g tr)"
  by (simp add: seq_def split: prod.splits sum.splits)

lemma fst_seq_last:
  assumes "fst (m tr) = fst (m' tr)" and "\<And>x t t'. fst (k x t) = fst (k x t')"
  shows "fst (seq m k tr) = fst (seq m' k tr)"
proof -
  obtain r t where a: "m tr = (r, t)" by (cases "m tr")
  obtain r' t' where b: "m' tr = (r', t')" by (cases "m' tr")
  from assms(1) a b have "r = r'" by simp
  with a b assms(2) show ?thesis by (cases r') (simp_all add: seq_def)
qed

lemma agree_capture:
  assumes "\<And>tr c. (\<forall>p. c \<noteq> WriteFile p) \<Longrightarrow> w tr c = w' tr c"
  shows "fst (capture_evidence w ts tr) = fst (capture_evidence w' ts tr)"
proof -
  have "\<And>c. (\<forall>p. c \<noteq> WriteFile p) \<Longrightarrow> do_call w c = do_call w' c"
    using assms by (intro agree_do_call) simp
  then show ?thesis
    by (simp add: capture_evidence_def Let_def seq_def try_except_def log_def ret_def
        split: prod.splits sum.splits)
qed

lemma agree_capture_tail:
  assumes "\<And>tr c. (\<forall>p. c \<noteq> WriteFile p) \<Longrightarrow> w tr c = w' tr c"
  shows "fst (seq (capture_evidence w ts) (\<lambda>(sp, hp). ret (g sp hp)) t)
       = fst (seq (capture_evidence w' ts) (\<lambda>(sp, hp). ret (g sp hp)) t)"
proof (rule fst_seq_last[OF agree_capture[OF assms]])
  fix x :: "string \<times> string" and t t' :: "event list"
  show "fst ((case x of (sp, hp) \<Rightarrow> ret (g sp hp)) t)
      = fst ((case x of (sp, hp) \<Rightarrow> ret (g sp hp)) t')"
    by (cases x) (simp add: ret_def)
qed

lemma agree_run:
  assumes "\<And>tr c. (\<forall>p. c \<noteq> WriteFile p) \<Longrightarrow> w tr c = w' tr c"
  shows "fst (run jl w ts a tr) = fst (run jl w' ts a tr)"
proof (cases "merchants a = []")
  case True
  then show ?thesis by (simp add: run_def)
next
  case False
  have ev: "\<And>tr c. \<not> evidence_call c \<Longrightarrow> w tr c = w' tr c"
  proof -
    fix tr c assume "\<not> evidence_call c"
    then have "\<forall>p. c \<noteq> WriteFile p" by auto
    then show "w tr c = w' tr c" by (rule assms)
  qed
  have pm: "process_merchants jl w a (merchants a) ([], [], [])
              = process_merchants jl w' a (merchants a) ([], [], [])"
    by (rule ext) (rule agree_process[OF ev])
  have op: "\<And>tr. w tr BrowserOpen = w' tr BrowserOpen" by (rule assms) simp
  show ?thesis
    using False
    apply (simp add: run_def fst_with_browser op agree_login[OF ev] pm)
    apply (simp split: sum.splits)
    apply (intro allI impI fst_seq_cong)
    apply (simp split: option.splits)
    apply (intro allI impI fst_seq_cong)
    apply (simp split: prod.splits)
    apply (intro allI impI fst_seq_cong)
    apply (simp split: prod.splits)
    apply (intro allI impI agree_capture_tail[OF assms])
    apply simp
    done
qed

lemma ex_main: "fst (main ex_jl ex_world ''ts'' ex_config ex_environ ex_args) = 0"
proof -
  have u: "str_or (arg_username ex_args) (PAYBACK_USERNAME ex_environ) = Some ''user''"
    and p: "str_or (arg_password ex_args) (PAYBACK_PASSWORD ex_environ) = Some ''secret''"
    by (simp_all add: str_or_def ex_args_def ex_environ_def)
  have h: "arg_headless ex_args = True" by (simp add: ex_args_def)
  show ?thesis
    by (simp add: main_code u p absent_def h ex_main_async ex_run ex_result_def)
qed

lemma agree_main:
  assumes "\<And>tr c. (\<forall>p. c \<noteq> WriteFile p) \<Longrightarrow> w tr c = w' tr c"
  shows "fst (main jl w ts cfg env argv) = fst (main jl w' ts cfg env argv)"
proof (cases "absent (str_or (arg_username argv) (PAYBACK_USERNAME env))
              \<or> absent (str_or (arg_password argv) (PAYBACK_PASSWORD env))")
  case True
  then show ?thesis by (auto simp: main_def Let_def)
next
  case False
  then show ?thesis
    by (simp add: main_code main_async_def agree_run[OF assms])
qed

lemma capture_write_fails:
  "capture_evidence (failing_at (WriteFile (''payback_coupons_'' @ ts @ ''.html'')) e
                       (answering f)) ts tr =
     (Inr (''payback_coupons_'' @ ts @ ''.png'', ''payback_coupons_'' @ ts @ ''.html''),
      tr @ [Call (GoTo (CouponsUrl (PStr []))),
            Call (GetScreenshot (''payback_coupons_'' @ ts @ ''.png'')),
            Call PageSource,
            Call (WriteFile (''payback_coupons_'' @ ts @ ''.html'')),
            Log ERROR (''Error saving HTML content: '' @ str_exn e)])"
  by (simp add: capture_evidence_def Let_def monad_defs failing_at_def answering_def)

text \<open>
  Claim C8, as the code has it. Only the writing of the markup file is inside a
  \<^verbatim>\<open>try\<close>. Two worlds that differ at most in how they answer the writing of a file
  give the same result of the run (the same lists and totals, or the same exception) and
  the same exit code; and when the writing fails, the failure is logged as an error and
  the capture returns both paths all the same.
\<close>

theorem evidence_write_failure_harmless:
  assumes "\<forall>tr c. (\<forall>p. c \<noteq> WriteFile p) \<longrightarrow> w tr c = w' tr c"
  shows "fst (run jl w ts a tr) = fst (run jl w' ts a tr)
       \<and> fst (main jl w ts cfg env argv) = fst (main jl w' ts cfg env argv)
       \<and> capture_evidence (failing_at (WriteFile (''payback_coupons_'' @ ts @ ''.html'')) e
                             (answering f)) ts tr =
           (Inr (''payback_coupons_'' @ ts @ ''.png'', ''payback_coupons_'' @ ts @ ''.html''),
            tr @ [Call (GoTo (CouponsUrl (PStr []))),
                  Call (GetScreenshot (''payback_coupons_'' @ ts @ ''.png'')),
                  Call PageSource,
                  Call (WriteFile (''payback_coupons_'' @ ts @ ''.html'')),
                  Log ERROR (''Error saving HTML content: '' @ str_exn e)])"
proof -
  have a: "\<And>tr c. (\<forall>p. c \<noteq> WriteFile p) \<Longrightarrow> w tr c = w' tr c" using assms by blast
  show ?thesis
    using agree_run[where w=w and w'=w', OF a] agree_main[where w=w and w'=w', OF a]
      capture_write_fails by blast
qed

theorem evidence_write_failure_harmless_witness:
  "fst (run ex_jl (failing_at (WriteFile ''payback_coupons_ts.html'') (ChannelError ''disk full'')
                     ex_world) ''ts'' ex_activator []) = Inr ex_result
   \<and> fst (main ex_jl (failing_at (WriteFile ''payback_coupons_ts.html'') (ChannelError ''disk full'')
                        ex_world) ''ts'' ex_config ex_environ ex_args) = 0"
proof -
  have h: "\<forall>tr c. (\<forall>p. c \<noteq> WriteFile p) \<longrightarrow>
             ex_world tr c = failing_at (WriteFile ''payback_coupons_ts.html'')
                               (ChannelError ''disk full'') ex_world tr c"
    by (simp add: failing_at_def)
  from evidence_write_failure_harmless[OF h, of ex_jl "''ts''" ex_activator "[]"
      ex_config ex_environ ex_args]
  show ?thesis by (simp add: ex_run ex_main)
qed

text \<open>
  Claim C8 as stated covers the screenshot too. In the mixed scenario the process exits
  with 0; when the screenshot call fails, the run ends with that exception, returns no
  lists, and the process exits with 1.
\<close>

theorem evidence_capture_counterexample:
  "fst (main ex_jl ex_world ''ts'' ex_config ex_environ ex_args) = 0
   \<and> fst (main ex_jl (failing_at (GetScreenshot ''payback_coupons_ts.png'')
                        (ChannelError ''capture failed'') ex_world)
            ''ts'' ex_config ex_environ ex_args) = 1
   \<and> fst (run ex_jl (failing_at (GetScreenshot ''payback_coupons_ts.png'')
                       (ChannelError ''capture failed'') ex_world)
            ''ts'' ex_activator []) = Inl (ChannelError ''capture failed'')"
proof -
  let ?w = "failing_at (GetScreenshot ''payback_coupons_ts.png'')
              (ChannelError ''capture failed'') ex_world"
  have ev: "\<And>tr c. \<not> evidence_call c \<Longrightarrow> ex_world tr c = ?w tr c"
    by (auto simp: failing_at_def)
  have m: "merchants ex_activator = ex_merchants" "ex_merchants \<noteq> []"
    by (simp_all add: ex_activator_def ex_merchants_def)
  let ?tr = "start_calls @ cookie_calls @ form_calls ex_activator
               @ [Call (ExecuteScript VerifyScript)]"
  have nr: "Call (ExecuteScript ReadResultsScript) \<notin> set ?tr"
    by (simp add: start_calls_def cookie_calls_def form_calls_def)
  have l: "login ?w ex_activator [Call BrowserOpen] = (Inr None, ?tr)"
    by (simp add: agree_login[where w=ex_world and w'="?w", OF ev, symmetric] ex_login start_calls_def)
  have pe: "process_merchants ex_jl ?w ex_activator ex_merchants ([], [], []) ?tr
          = process_merchants ex_jl ex_world ex_activator ex_merchants ([], [], []) ?tr"
    by (rule agree_process[where w=ex_world and w'="?w", OF ev, symmetric])
  obtain tr1 where p: "process_merchants ex_jl ?w ex_activator ex_merchants ([], [], []) ?tr
      = (Inr ([ex_outcome_A, ex_outcome_B], [ex_outcome_A], [ex_outcome_B]), tr1)"
    unfolding pe using ex_process[OF nr] by (metis prod.collapse)
  obtain tr2 where s: "summarize [ex_outcome_A, ex_outcome_B] (0, 0) tr1 = (Inr (3, 5), tr2)"
    using ex_summarize[of tr1] by (metis prod.collapse)
  have c: "capture_evidence ?w ''ts'' tr2
         = (Inl (ChannelError ''capture failed''),
            tr2 @ [Call (GoTo (CouponsUrl (PStr []))),
                   Call (GetScreenshot ''payback_coupons_ts.png'')])"
    by (simp add: capture_evidence_def Let_def monad_defs failing_at_def ex_world_def)
  have r: "fst (run ex_jl ?w ''ts'' ex_activator []) = Inl (ChannelError ''capture failed'')"
    by (simp add: run_def m with_browser_def do_call_def failing_at_def[of _ _ _ "[]"]
        ex_world_def[of "[]"] seq_def l p s c
        del: summarize.simps process_merchants.simps)
  have u: "str_or (arg_username ex_args) (PAYBACK_USERNAME ex_environ) = Some ''user''"
    and pw: "str_or (arg_password ex_args) (PAYBACK_PASSWORD ex_environ) = Some ''secret''"
    by (simp_all add: str_or_def ex_args_def ex_environ_def)
  have h: "arg_headless ex_args = True" by (simp add: ex_args_def)
  have ma: "main_async ex_jl ?w ''ts'' ex_config ex_environ ''user'' ''secret'' True
              = run ex_jl ?w ''ts'' ex_activator"
    by (simp add: main_async_def ex_config_def ex_environ_def ex_activator_def)
  have "fst (main ex_jl ?w ''ts'' ex_config ex_environ ex_args) = 1"
    by (simp add: main_code u pw absent_def h ma r)
  with r ex_main show ?thesis by simp
qed

section \<open>The activation script on a page without open coupons\<close>

text \<open>
  The object that the script builds reaches the Python side as JSON text
  (\<^verbatim>\<open>JSON.stringify\<close>, then \<^verbatim>\<open>json.loads\<close>), which gives back the same
  object; the outcome is therefore read off the script's object directly.
\<close>

lemma activated_no_match:
  assumes "button_activated b" "s \<in> set button_selectors"
  shows "\<not> matches s b"
  using assms by (auto simp: button_activated_def button_selectors_def matches_def)

lemma activated_query_none:
  assumes "list_all button_activated bs" "s \<in> set button_selectors"
  shows "query_selector bs s = None"
  using assms activated_no_match
  by (auto simp: query_selector_def find_None_iff list_all_iff)

lemma first_match_none:
  "(\<And>s. s \<in> set ss \<Longrightarrow> q s = None) \<Longrightarrow> first_match q ss = None"
  by (induction ss) auto

lemma activated_find_button:
  assumes "list_all button_activated bs"
  shows "find_button bs = None"
proof -
  have "first_match (query_selector bs) button_selectors = None"
    by (rule first_match_none) (rule activated_query_none[OF assms])
  moreover have "find (\<lambda>b. str_includes (map to_lower (btn_text b)) ''aktivieren'') bs = None"
    using assms by (auto simp: find_None_iff list_all_iff button_activated_def)
  ultimately show ?thesis by (simp add: find_button_def)
qed

lemma find_call_to_action_mem:
  "find_call_to_action ctas = Some cta \<Longrightarrow> cta \<in> set ctas"
  by (auto simp: find_call_to_action_def find_Some_iff split: option.splits list.splits)

lemma activated_coupon_button:
  assumes "coupon_activated c"
  shows "coupon_button c = None"
proof (cases "coupon_shadow c")
  case None
  then show ?thesis by (simp add: coupon_button_def)
next
  case (Some ctas)
  show ?thesis
  proof (cases "find_call_to_action ctas")
    case None
    with Some show ?thesis by (simp add: coupon_button_def)
  next
    case (Some cta)
    then have "cta \<in> set ctas" by (rule find_call_to_action_mem)
    with assms \<open>coupon_shadow c = Some ctas\<close>
    have "case cta_shadow cta of None \<Rightarrow> True | Some bs \<Rightarrow> list_all button_activated bs"
      by (auto simp: coupon_activated_def list_all_iff)
    then have "(case cta_shadow cta of None \<Rightarrow> None | Some bs \<Rightarrow> find_button bs) = None"
      by (auto simp: activated_find_button split: option.splits)
    with Some \<open>coupon_shadow c = Some ctas\<close> show ?thesis by (simp add: coupon_button_def)
  qed
qed

lemma activated_script:
  assumes "all_activated doc"
  shows "activation_script doc =
     (if container_found doc then
        [(''success'', PBool True), (''activated'', PInt 0),
         (''total'', dict_get (activation_script doc) ''total'' PNone)]
      else
        [(''success'', PBool True), (''error'', PStr ''No coupons to activate''),
         (''activated'', PInt 0), (''total'', PInt 0), (''alreadyActivated'', PBool True)])"
proof (cases "doc_center doc")
  case (ShadowRoot q)
  show ?thesis
  proof (cases "first_match q container_selectors")
    case None
    with ShadowRoot show ?thesis by (simp add: activation_script_def container_found_def)
  next
    case (Some coupons)
    with assms ShadowRoot have "list_all coupon_activated coupons"
      by (simp add: all_activated_def)
    then have "filter (\<lambda>c. coupon_button c \<noteq> None) coupons = []"
      by (auto simp: filter_empty_conv list_all_iff activated_coupon_button)
    with Some ShadowRoot show ?thesis
      by (simp add: activation_script_def container_found_def dict_get_def)
  qed
qed (use assms in \<open>simp_all add: all_activated_def\<close>)

text \<open>
  Claim C9, as the code has it. On a page on which every coupon is already activated the
  script clicks nothing, and the outcome has success true and an activated count of 0,
  with no error record. The flag \<^verbatim>\<open>alreadyActivated\<close> is true exactly when the
  script found no container of published coupons: only that branch of the script sets it.
  When the container is still there the script reports its coupons as the total and sets
  no flag, so the outcome carries the default, false.
\<close>

theorem already_activated_outcome:
  assumes "all_activated doc"
  shows "\<exists>out. outcome_of_results n p (PDict (activation_script doc)) = Inr (out, [])
          \<and> dict_get out ''success'' PNone = PBool True
          \<and> dict_get out ''activated'' PNone = PInt 0
          \<and> dict_get out ''alreadyActivated'' PNone = PBool (\<not> container_found doc)"
proof (cases "container_found doc")
  case True
  then show ?thesis
    by (subst activated_script[OF assms])
       (simp add: outcome_of_results_def ebind_def py_get_def success_outcome_def dict_get_def)
next
  case False
  then show ?thesis
    by (subst activated_script[OF assms])
       (simp add: outcome_of_results_def ebind_def py_get_def success_outcome_def dict_get_def)
qed

lemma ex_document_activated: "all_activated ex_document"
  by (simp add: all_activated_def ex_document_def ex_published_def container_selectors_def
      coupon_activated_def ex_activated_coupon_def button_activated_def ex_activated_button_def
      to_lower_def)

theorem already_activated_outcome_witness:
  "\<exists>out. outcome_of_results (PStr ''A'') (PStr ''101'') (PDict (activation_script ex_document))
            = Inr (out, [])
        \<and> dict_get out ''success'' PNone = PBool True
        \<and> dict_get out ''activated'' PNone = PInt 0
        \<and> dict_get out ''alreadyActivated'' PNone = PBool (\<not> container_found ex_document)"
  using ex_document_activated by (rule already_activated_outcome)

text \<open>
  Claim C9 as stated has the flag true on every such page. On the page with one coupon
  whose only button is in the activated state, the outcome is a success with 0 of 1
  activated and the flag false.
\<close>

theorem already_activated_counterexample:
  "all_activated ex_document
   \<and> outcome_of_results (PStr ''A'') (PStr ''101'') (PDict (activation_script ex_document))
       = Inr ([(''partner_name'', PStr ''A''), (''partner_id'', PStr ''101''),
               (''activated'', PInt 0), (''total'', PInt 1),
               (''success'', PBool True), (''alreadyActivated'', PBool False)], [])"
proof
  show "all_activated ex_document" by (rule ex_document_activated)
  have "coupon_button ex_activated_coupon = None"
    by (simp add: coupon_button_def ex_activated_coupon_def find_call_to_action_def
        find_button_def button_selectors_def query_selector_def matches_def
        ex_activated_button_def to_lower_def)
  then have "activation_script ex_document =
      [(''success'', PBool True), (''activated'', PInt 0), (''total'', PInt 1)]"
    by (simp add: activation_script_def ex_document_def ex_published_def container_selectors_def)
  then show "outcome_of_results (PStr ''A'') (PStr ''101'') (PDict (activation_script ex_document))
       = Inr ([(''partner_name'', PStr ''A''), (''partner_id'', PStr ''101''),
               (''activated'', PInt 0), (''total'', PInt 1),
               (''success'', PBool True), (''alreadyActivated'', PBool False)], [])"
    by (simp add: outcome_of_results_def ebind_def py_get_def success_outcome_def dict_get_def)
qed

end
